theory Spec2Isabelle
  imports Complex_Main
begin

section \<open>Data model\<close>

text \<open>
  The vehicle dynamics and cargo containment code of JunkDash (class \<open>Truck\<close>, and the
  fallen-item polling of class \<open>Game\<close>) is embedded over the real numbers: every
  JavaScript number is a \<open>real\<close>, so rounding, infinities and NaN of IEEE doubles are
  outside the model. Logging, rendering, audio and the quaternion bookkeeping of item
  orientation have no influence on the fields modelled here and are left out.
  A JavaScript value that is tested for truthiness and is either a positive time stamp or
  \<open>0\<close>/\<open>undefined\<close> is a \<open>real\<close> with \<open>0\<close> for "unset".
\<close>

datatype vec3 = Vector3 (vx: real) (vy: real) (vz: real)

definition Zero3 :: vec3 where
  "Zero3 = Vector3 0 0 0"

text \<open>
  The members of the engine's enumeration \<open>BABYLON.PhysicsMotionType\<close>. The truck moves
  its own walls with \<open>ANIMATED\<close>.
\<close>

datatype motion_type = STATIC | ANIMATED | DYNAMIC

text \<open>A Havok physics body, as far as the truck code reads and writes it.\<close>

record body =
  linearVelocity :: vec3
  angularVelocity :: vec3
  motionType :: motion_type
  linearDamping :: real
  angularDamping :: real
  targetTransform :: "vec3 option"

text \<open>
  \<open>teleportItemBody\<close> and the delayed body creation pass
  \<open>BABYLON.PhysicsMotionType.KINEMATIC\<close> to \<open>body.setMotionType\<close>. The enumeration has
  no such member, so the expression is \<open>undefined\<close>, here \<open>None\<close>; the engine does not
  change the motion type of the body on that argument.
\<close>

definition PhysicsMotionType_KINEMATIC :: "motion_type option" where
  "PhysicsMotionType_KINEMATIC = None"

fun setMotionType :: "motion_type option \<Rightarrow> body \<Rightarrow> body" where
  "setMotionType None b = b"
| "setMotionType (Some ty) b = b\<lparr>motionType := ty\<rparr>"

record aggregate =
  agg_body :: "body option"

record physics_params =
  pp_mass :: real
  pp_restitution :: real
  pp_friction :: real

record mesh =
  position :: vec3
  physicsAggregate :: "aggregate option"
  pendingPhysics :: "physics_params option"
  parentIsTruckRoot :: bool

text \<open>
  A cargo item: the object that \<open>ItemManager.placeItem\<close> pushes both into
  \<open>placedItems\<close> and (through \<open>Truck.addLoadedItem\<close>) into \<open>loadedItems\<close>.
\<close>

record item =
  item_id :: string
  item_mesh :: "mesh option"
  item_size :: "vec3 option"
  isFallen :: bool
  isParented :: bool
  createPhysicsAt :: real
  becomeDynamicAt :: real
  dampingBoostUntil :: real
  dampingBoosted :: bool
  lockLateralUntil :: real
  baseLinearDamping :: real
  baseAngularDamping :: real
  localX :: "real option"
  localZ :: "real option"
  localY :: "real option"
  restoreMotionAt :: real
  restoreMotionType :: "motion_type option"

record keys =
  key_w :: bool
  key_a :: bool
  key_s :: bool
  key_d :: bool
  key_space :: bool

record pose =
  pose_x :: real
  pose_z :: real
  pose_rotY :: real

record collision_cache =
  cc_frameId :: int
  cc_posX :: real
  cc_posZ :: real
  cc_rotY :: real
  cc_result :: bool

datatype truck_mesh = Floor | LeftWall | RightWall | FrontWall | Cab

text \<open>Static geometry supplied by the scene manager.\<close>

record house =
  house_x :: real
  house_z :: real
  house_disposed :: bool
  houseWidth :: "real option"
  houseDepth :: "real option"
  houseRotation :: "real option"
  house_collisionRadiusXZ :: "real option"

record wall_bound =
  wb_minX :: real
  wb_maxX :: real
  wb_minZ :: real
  wb_maxZ :: real

record wall_mesh =
  wall_name :: string
  wall_disposed :: bool

record scene_manager =
  housesByTile :: "((int \<times> int) \<times> house option list option) list option"
  groundTileSize :: "real option"
  pickupHouse :: "house option"
  destinationWalls :: "wall_mesh option list option"
  destinationWallBounds :: "wall_bound list option"

record truck =
  sceneManager :: "scene_manager option"
  cargoLength :: real
  cargoWidth :: real
  floorTopY :: real
  position_x :: real
  position_z :: real
  rotation :: real
  speed :: real
  prevSpeed :: real
  maxSpeed :: real
  baseAcceleration :: real
  deceleration :: real
  brakeDeceleration :: real
  turnSpeed :: real
  rearAxleOffset :: real
  currentAcceleration :: "real option"
  turnRate :: real
  turnInput :: real
  driftAngle :: real
  isDrifting :: bool
  autoBrakeTimer :: real
  currentGear :: int
  gearSpeeds :: "real list"
  gearDownSpeeds :: "real list"
  gearAcceleration :: "real list"
  gearJustChanged :: bool
  truck_keys :: keys
  loadedItems :: "item list"
  enableItemPhysics :: bool
  truckWorldVelX :: real
  truckWorldVelZ :: real
  root_node :: pose
  truck_meshes :: "truck_mesh list"
  collisionMeshes :: "truck_mesh list option"
  collisionRadiusXZ :: "real option"
  collisionCache :: "collision_cache option"

text \<open>The state the constructor of \<open>Truck\<close> builds.\<close>

definition no_keys :: keys where
  "no_keys = \<lparr>key_w = False, key_a = False, key_s = False, key_d = False, key_space = False\<rparr>"

definition new_truck :: "scene_manager option \<Rightarrow> truck" where
  "new_truck sm =
     \<lparr>sceneManager = sm, cargoLength = 4.8, cargoWidth = 2.4, floorTopY = 1.25,
      position_x = 0, position_z = 0, rotation = 0, speed = 0, prevSpeed = 0,
      maxSpeed = 110, baseAcceleration = 15, deceleration = 18, brakeDeceleration = 60,
      turnSpeed = 1.9, rearAxleOffset = 2.5, currentAcceleration = Some 0, turnRate = 0,
      turnInput = 0, driftAngle = 0, isDrifting = False, autoBrakeTimer = 0,
      currentGear = 0, gearSpeeds = [0, 25, 50, 75, 95, 110],
      gearDownSpeeds = [0, 20, 45, 70, 90, 105],
      gearAcceleration = [12, 12, 8, 5, 3, 1.5], gearJustChanged = False,
      truck_keys = no_keys, loadedItems = [], enableItemPhysics = True,
      truckWorldVelX = 0, truckWorldVelZ = 0,
      root_node = \<lparr>pose_x = 0, pose_z = 0, pose_rotY = 0\<rparr>,
      truck_meshes = [Floor, LeftWall, RightWall, FrontWall, Cab],
      collisionMeshes = None, collisionRadiusXZ = None, collisionCache = None\<rparr>"

section \<open>Drivetrain\<close>

text \<open>Reading a JavaScript array: an index outside the array gives \<open>undefined\<close>.\<close>

definition js_nth :: "'a list \<Rightarrow> int \<Rightarrow> 'a option" where
  "js_nth xs i = (if 0 \<le> i \<and> i < int (length xs) then Some (xs ! nat i) else None)"

text \<open>\<open>x || dflt\<close> on a number that may be \<open>undefined\<close>: \<open>0\<close> is falsy as well.\<close>

definition or_default :: "real option \<Rightarrow> real \<Rightarrow> real" where
  "or_default v dflt = (case v of None \<Rightarrow> dflt | Some x \<Rightarrow> if x = 0 then dflt else x)"

text \<open>\<open>absSpeed >= table[g]\<close>: a comparison with \<open>undefined\<close> is false.\<close>

definition threshold_met :: "real list \<Rightarrow> int \<Rightarrow> real \<Rightarrow> bool" where
  "threshold_met table g absSpeed =
     (case js_nth table g of None \<Rightarrow> False | Some th \<Rightarrow> absSpeed \<ge> th)"

text \<open>The test made for gear \<open>g\<close> inside the loop of \<open>updateGear\<close>.\<close>

definition gear_met :: "truck \<Rightarrow> int \<Rightarrow> bool" where
  "gear_met t g =
     (if currentGear t \<ge> g then threshold_met (gearDownSpeeds t) g \<bar>speed t\<bar>
      else threshold_met (gearSpeeds t) g \<bar>speed t\<bar>)"

fun gear_loop :: "truck \<Rightarrow> int list \<Rightarrow> int \<Rightarrow> int" where
  "gear_loop t [] newGear = newGear"
| "gear_loop t (g # gs) newGear = gear_loop t gs (if gear_met t g then g else newGear)"

definition updateGear :: "truck \<Rightarrow> truck" where
  "updateGear t =
     (let prevGear = currentGear t;
          g' = (if speed t > 0.5 then -1
                else if speed t < -0.5 then gear_loop t [1, 2, 3, 4, 5] 1
                else 0)
      in t\<lparr>currentGear := g',
            gearJustChanged := (prevGear \<noteq> g' \<and> prevGear \<noteq> 0 \<and> g' \<noteq> 0)\<rparr>)"

definition gearAccel :: "truck \<Rightarrow> real" where
  "gearAccel t =
     or_default (js_nth (gearAcceleration t) (max 0 (currentGear t))) (baseAcceleration t)"

text \<open>The auto-brake countdown at the head of \<open>updateDriving\<close>.\<close>

definition autoBrakeCountdown :: "real \<Rightarrow> truck \<Rightarrow> truck" where
  "autoBrakeCountdown dt t =
     (if autoBrakeTimer t > 0 then t\<lparr>autoBrakeTimer := max 0 (autoBrakeTimer t - dt)\<rparr> else t)"

definition applyAutoBrake :: "real \<Rightarrow> truck \<Rightarrow> truck" where
  "applyAutoBrake duration t = t\<lparr>autoBrakeTimer := max (autoBrakeTimer t) duration\<rparr>"

definition effectiveKeys :: "bool \<Rightarrow> truck \<Rightarrow> keys" where
  "effectiveKeys inputEnabled t = (if inputEnabled then truck_keys t else no_keys)"

text \<open>The acceleration / deceleration branch (brake, forward, reverse, coasting).\<close>

definition accelerate :: "keys \<Rightarrow> bool \<Rightarrow> real \<Rightarrow> truck \<Rightarrow> real" where
  "accelerate ek autoBraking dt t =
     (if key_space ek \<or> autoBraking then
        (if speed t > 0 then max 0 (speed t - brakeDeceleration t * dt)
         else if speed t < 0 then min 0 (speed t + brakeDeceleration t * dt)
         else speed t)
      else if key_w ek then
        (if speed t > 0 then max 0 (speed t - brakeDeceleration t * dt)
         else speed t - gearAccel t * dt)
      else if key_s ek then
        (if speed t < 0 then min 0 (speed t + brakeDeceleration t * dt)
         else speed t + gearAccel t * dt)
      else
        (if speed t > 0 then max 0 (speed t - deceleration t * dt)
         else if speed t < 0 then min 0 (speed t + deceleration t * dt)
         else speed t))"

definition clampSpeed :: "truck \<Rightarrow> real \<Rightarrow> real" where
  "clampSpeed t v = max (- maxSpeed t) (min (maxSpeed t * 0.3) v)"

text \<open>
  The speed-update step: acceleration branch, clamp, and the snap to a full stop.
  \<open>autoBraking\<close> is \<open>autoBrakeTimer > 0\<close> read after the countdown.
\<close>

definition speedUpdate :: "keys \<Rightarrow> real \<Rightarrow> truck \<Rightarrow> truck" where
  "speedUpdate ek dt t =
     (let autoBraking = (autoBrakeTimer t > 0);
          v = clampSpeed t (accelerate ek autoBraking dt t)
      in t\<lparr>speed := (if \<not> autoBraking \<and> autoBrakeTimer t = 0 \<and> \<bar>v\<bar> < 0.2 then 0 else v)\<rparr>)"

section \<open>Collision broker\<close>

subsection \<open>Perimeter-point check (\<open>checkCollision\<close>)\<close>

definition truckHalfWidth :: real where "truckHalfWidth = 1.3"
definition truckFront :: real where "truckFront = -4.3"
definition truckBack :: real where "truckBack = 2.4"

text \<open>The 36 perimeter points, in the order of the source (their names are only logged).\<close>

definition checkPoints :: "(real \<times> real) list" where
  "checkPoints =
     [(- truckHalfWidth, truckFront), (truckHalfWidth, truckFront),
      (- truckHalfWidth, truckBack), (truckHalfWidth, truckBack),
      (- truckHalfWidth * 0.75, truckFront), (- truckHalfWidth * 0.5, truckFront),
      (- truckHalfWidth * 0.25, truckFront), (0, truckFront),
      (truckHalfWidth * 0.25, truckFront), (truckHalfWidth * 0.5, truckFront),
      (truckHalfWidth * 0.75, truckFront),
      (- truckHalfWidth * 0.75, truckBack), (- truckHalfWidth * 0.5, truckBack),
      (- truckHalfWidth * 0.25, truckBack), (0, truckBack),
      (truckHalfWidth * 0.25, truckBack), (truckHalfWidth * 0.5, truckBack),
      (truckHalfWidth * 0.75, truckBack),
      (- truckHalfWidth, truckFront * 0.85), (- truckHalfWidth, truckFront * 0.7),
      (- truckHalfWidth, truckFront * 0.55), (- truckHalfWidth, truckFront * 0.4),
      (- truckHalfWidth, truckFront * 0.25), (- truckHalfWidth, truckFront * 0.1),
      (- truckHalfWidth, 0), (- truckHalfWidth, truckBack * 0.33),
      (- truckHalfWidth, truckBack * 0.66),
      (truckHalfWidth, truckFront * 0.85), (truckHalfWidth, truckFront * 0.7),
      (truckHalfWidth, truckFront * 0.55), (truckHalfWidth, truckFront * 0.4),
      (truckHalfWidth, truckFront * 0.25), (truckHalfWidth, truckFront * 0.1),
      (truckHalfWidth, 0), (truckHalfWidth, truckBack * 0.33),
      (truckHalfWidth, truckBack * 0.66)]"

text \<open>A perimeter point of the truck, placed at \<open>(ox, oz)\<close> with the truck's cosine and sine.\<close>

definition point_world :: "real \<Rightarrow> real \<Rightarrow> real \<Rightarrow> real \<Rightarrow> real \<times> real \<Rightarrow> real \<times> real" where
  "point_world ox oz truckCos truckSin p =
     (ox + fst p * truckCos - snd p * truckSin, oz + fst p * truckSin + snd p * truckCos)"

definition in_wall :: "wall_bound \<Rightarrow> real \<times> real \<Rightarrow> bool" where
  "in_wall wall q =
     (let minX = min (wb_minX wall) (wb_maxX wall);
          maxX = max (wb_minX wall) (wb_maxX wall);
          minZ = min (wb_minZ wall) (wb_maxZ wall);
          maxZ = max (wb_minZ wall) (wb_maxZ wall);
          wallBuffer = 0
      in fst q \<ge> minX - wallBuffer \<and> fst q \<le> maxX + wallBuffer \<and>
         snd q \<ge> minZ - wallBuffer \<and> snd q \<le> maxZ + wallBuffer)"

definition count_points :: "('a \<Rightarrow> bool) \<Rightarrow> 'a list \<Rightarrow> nat" where
  "count_points P ps = length (filter P ps)"

text \<open>\<open>countWallCollisions\<close>: the pair (newCollisions, currentCollisions).\<close>

definition countWallCollisions ::
  "scene_manager \<Rightarrow> truck \<Rightarrow> real \<Rightarrow> real \<Rightarrow> real \<Rightarrow> real \<Rightarrow> (real \<times> real) list \<Rightarrow> nat \<times> nat" where
  "countWallCollisions sm t newX newZ truckCos truckSin pts =
     (case destinationWallBounds sm of
        None \<Rightarrow> (0, 0)
      | Some walls \<Rightarrow>
          (sum_list (map (\<lambda>wall. count_points
                (\<lambda>p. in_wall wall (point_world newX newZ truckCos truckSin p)) pts) walls),
           sum_list (map (\<lambda>wall. count_points
                (\<lambda>p. in_wall wall (point_world (position_x t) (position_z t) truckCos truckSin p)) pts)
              walls)))"

text \<open>All houses of all tiles, then the pickup house.\<close>

definition allHouses :: "scene_manager \<Rightarrow> ((int \<times> int) \<times> house option list option) list \<Rightarrow> house option list" where
  "allHouses sm tiles =
     concat (map (\<lambda>kv. case snd kv of None \<Rightarrow> [] | Some hs \<Rightarrow> hs) tiles)
     @ (case pickupHouse sm of None \<Rightarrow> [] | Some h \<Rightarrow> [Some h])"

definition in_house :: "house \<Rightarrow> real \<times> real \<Rightarrow> bool" where
  "in_house h q =
     (let houseHalfWidth = or_default (houseWidth h) 6 / 2;
          houseHalfDepth = or_default (houseDepth h) 6 / 2;
          houseRot = or_default (houseRotation h) 0;
          houseCos = cos (- houseRot);
          houseSin = sin (- houseRot);
          relX = fst q - house_x h;
          relZ = snd q - house_z h;
          localX = relX * houseCos - relZ * houseSin;
          localZ = relX * houseSin + relZ * houseCos
      in \<bar>localX\<bar> < houseHalfWidth \<and> \<bar>localZ\<bar> < houseHalfDepth)"

text \<open>The contribution of one entry of \<open>allHouses\<close> to (newCollisions, currentCollisions).\<close>

definition house_counts ::
  "truck \<Rightarrow> real \<Rightarrow> real \<Rightarrow> real \<Rightarrow> real \<Rightarrow> (real \<times> real) list \<Rightarrow> house option \<Rightarrow> nat \<times> nat" where
  "house_counts t newX newZ truckCos truckSin pts ho =
     (case ho of
        None \<Rightarrow> (0, 0)
      | Some h \<Rightarrow>
          if house_disposed h then (0, 0)
          else
            let checkRadius = (20::real);
                dx = house_x h - newX;
                dz = house_z h - newZ;
                distSq = dx * dx + dz * dz
            in if distSq > checkRadius * checkRadius then (0, 0)
               else
                 (count_points (\<lambda>p. in_house h (point_world newX newZ truckCos truckSin p)) pts,
                  count_points
                    (\<lambda>p. in_house h (point_world (position_x t) (position_z t) truckCos truckSin p))
                    pts))"

text \<open>The two totals that \<open>checkCollision\<close> accumulates over walls and houses.\<close>

definition collisionCounts :: "scene_manager \<Rightarrow> truck \<Rightarrow> real \<Rightarrow> real \<Rightarrow> nat \<times> nat" where
  "collisionCounts sm t newX newZ =
     (let truckCos = cos (rotation t);
          truckSin = sin (rotation t);
          wallCollisionResult = countWallCollisions sm t newX newZ truckCos truckSin checkPoints;
          hc = (case housesByTile sm of
                  None \<Rightarrow> []
                | Some tiles \<Rightarrow>
                    map (house_counts t newX newZ truckCos truckSin checkPoints) (allHouses sm tiles))
      in (fst wallCollisionResult + sum_list (map fst hc),
          snd wallCollisionResult + sum_list (map snd hc)))"

text \<open>\<open>checkCollision\<close>: \<open>True\<close> means the move is blocked.\<close>

definition checkCollision :: "truck \<Rightarrow> real \<Rightarrow> real \<Rightarrow> bool" where
  "checkCollision t newX newZ =
     (case sceneManager t of
        None \<Rightarrow> False
      | Some sm \<Rightarrow>
          let newCollisions = fst (collisionCounts sm t newX newZ);
              currentCollisions = snd (collisionCounts sm t newX newZ)
          in if currentCollisions > 0 then newCollisions \<ge> currentCollisions
             else if newCollisions > 0 then True
             else False)"

subsection \<open>Mesh intersection check (\<open>checkMeshCollision\<close>)\<close>

datatype target = House house | Wall wall_mesh

text \<open>
  Babylon's \<open>intersectsMesh\<close> is external: it is a parameter, a function of the pose the
  truck root has when the test runs, the truck mesh tested and the static mesh.
\<close>

type_synonym intersects = "pose \<Rightarrow> truck_mesh \<Rightarrow> target \<Rightarrow> bool"

text \<open>\<open>Math.round\<close>: the nearest integer, halves rounded up.\<close>

definition js_round :: "real \<Rightarrow> int" where
  "js_round x = \<lfloor>x + 1 / 2\<rfloor>"

definition cache_hit :: "collision_cache option \<Rightarrow> int \<Rightarrow> real \<Rightarrow> real \<Rightarrow> real \<Rightarrow> bool option" where
  "cache_hit c frameId posX posZ rotY =
     (case c of
        None \<Rightarrow> None
      | Some e \<Rightarrow>
          if cc_frameId e = frameId \<and> cc_posX e = posX \<and> cc_posZ e = posZ \<and> cc_rotY e = rotY
          then Some (cc_result e) else None)"

definition house_candidate :: "real \<Rightarrow> real \<Rightarrow> real \<Rightarrow> house \<Rightarrow> bool" where
  "house_candidate truckRadius posX posZ h =
     (let dx = house_x h - posX;
          dz = house_z h - posZ;
          houseRadius = or_default (house_collisionRadiusXZ h) 10;
          maxDist = truckRadius + houseRadius
      in \<not> (dx * dx + dz * dz > maxDist * maxDist))"

definition house_hit :: "intersects \<Rightarrow> pose \<Rightarrow> truck_mesh list \<Rightarrow> real \<Rightarrow> real \<Rightarrow> real \<Rightarrow> house option \<Rightarrow> bool" where
  "house_hit isect rt truckMeshes truckRadius posX posZ ho =
     (case ho of
        None \<Rightarrow> False
      | Some h \<Rightarrow>
          \<not> house_disposed h \<and> house_candidate truckRadius posX posZ h \<and>
          list_ex (\<lambda>m. isect rt m (House h)) truckMeshes)"

definition tiles_hit ::
  "intersects \<Rightarrow> pose \<Rightarrow> truck_mesh list \<Rightarrow> real \<Rightarrow> real \<Rightarrow> real \<Rightarrow>
   ((int \<times> int) \<times> house option list option) list \<Rightarrow> int \<Rightarrow> int \<Rightarrow> bool" where
  "tiles_hit isect rt truckMeshes truckRadius posX posZ tiles baseTileX baseTileZ =
     list_ex (\<lambda>gx. list_ex (\<lambda>gz.
         case map_of tiles (gx, gz) of
           None \<Rightarrow> False
         | Some None \<Rightarrow> False
         | Some (Some houses) \<Rightarrow>
             list_ex (house_hit isect rt truckMeshes truckRadius posX posZ) houses)
       [baseTileZ - 1, baseTileZ, baseTileZ + 1])
       [baseTileX - 1, baseTileX, baseTileX + 1]"

definition wall_hit :: "intersects \<Rightarrow> pose \<Rightarrow> truck_mesh list \<Rightarrow> wall_mesh option \<Rightarrow> bool" where
  "wall_hit isect rt truckMeshes wo =
     (case wo of
        None \<Rightarrow> False
      | Some wl \<Rightarrow> \<not> wall_disposed wl \<and> list_ex (\<lambda>m. isect rt m (Wall wl)) truckMeshes)"

text \<open>
  The three intersection passes (tile houses, pickup house, destination walls), run while
  the root has the pose \<open>rt\<close>; a later pass runs only when the earlier ones found nothing.
\<close>

definition mesh_tests ::
  "intersects \<Rightarrow> scene_manager \<Rightarrow> pose \<Rightarrow> truck_mesh list \<Rightarrow> real \<Rightarrow> real \<Rightarrow> real \<Rightarrow> bool" where
  "mesh_tests isect sm rt truckMeshes truckRadius posX posZ =
     (let tileSize = or_default (groundTileSize sm) 50;
          baseTileX = js_round (posX / tileSize);
          baseTileZ = js_round (posZ / tileSize);
          c1 = (case housesByTile sm of
                  None \<Rightarrow> False
                | Some tiles \<Rightarrow>
                    tiles_hit isect rt truckMeshes truckRadius posX posZ tiles baseTileX baseTileZ);
          c2 = (if \<not> c1 then house_hit isect rt truckMeshes truckRadius posX posZ (pickupHouse sm)
                else False);
          c3 = (if \<not> (c1 \<or> c2) then
                  (case destinationWalls sm of
                     None \<Rightarrow> False
                   | Some walls \<Rightarrow> list_ex (wall_hit isect rt truckMeshes) walls)
                else False)
      in c1 \<or> c2 \<or> c3)"

text \<open>
  \<open>checkMeshCollision\<close>: the result and the truck afterwards. The root node is moved to
  the candidate pose, the tests run against it, and the three saved coordinates are written
  back; the result is stored in the per-frame cache.
\<close>

definition checkMeshCollision ::
  "intersects \<Rightarrow> int \<Rightarrow> real \<Rightarrow> real \<Rightarrow> real \<Rightarrow> truck \<Rightarrow> bool \<times> truck" where
  "checkMeshCollision isect frameId posX posZ rotY t =
     (case sceneManager t of
        None \<Rightarrow> (False, t)
      | Some sm \<Rightarrow>
          (case cache_hit (collisionCache t) frameId posX posZ rotY of
             Some r \<Rightarrow> (r, t)
           | None \<Rightarrow>
               let oldX = pose_x (root_node t);
                   oldZ = pose_z (root_node t);
                   oldRotY = pose_rotY (root_node t);
                   t1 = t\<lparr>root_node := (root_node t)\<lparr>pose_x := posX, pose_z := posZ, pose_rotY := rotY\<rparr>\<rparr>;
                   truckMeshes = (case collisionMeshes t1 of
                                    None \<Rightarrow> truck_meshes t1
                                  | Some ms \<Rightarrow> ms);
                   t2 = t1\<lparr>collisionMeshes := Some truckMeshes\<rparr>;
                   truckRadius = or_default (collisionRadiusXZ t2) 5;
                   collision = mesh_tests isect sm (root_node t2) truckMeshes truckRadius posX posZ;
                   t3 = t2\<lparr>root_node := (root_node t2)\<lparr>pose_x := oldX, pose_z := oldZ, pose_rotY := oldRotY\<rparr>\<rparr>
               in (collision,
                   t3\<lparr>collisionCache := Some \<lparr>cc_frameId = frameId, cc_posX = posX, cc_posZ = posZ,
                          cc_rotY = rotY, cc_result = collision\<rparr>\<rparr>)))"

section \<open>Cargo stabilizer\<close>

subsection \<open>Access to an item's mesh and body\<close>

text \<open>\<open>item.mesh.physicsAggregate && item.mesh.physicsAggregate.body\<close>\<close>

definition item_body :: "item \<Rightarrow> body option" where
  "item_body it =
     (case item_mesh it of
        None \<Rightarrow> None
      | Some m \<Rightarrow> (case physicsAggregate m of None \<Rightarrow> None | Some ag \<Rightarrow> agg_body ag))"

text \<open>The truthiness tests \<open>if (body)\<close> and \<open>if (item.mesh)\<close>.\<close>

definition has_body :: "item \<Rightarrow> bool" where
  "has_body it = (item_body it \<noteq> None)"

definition has_mesh :: "item \<Rightarrow> bool" where
  "has_mesh it = (item_mesh it \<noteq> None)"

text \<open>\<open>item.mesh.position\<close>, when the item has a mesh.\<close>

definition item_position :: "item \<Rightarrow> vec3 option" where
  "item_position it = (case item_mesh it of None \<Rightarrow> None | Some m \<Rightarrow> Some (position m))"

text \<open>A write through the body reference: the body object inside the aggregate changes.\<close>

definition set_body :: "body \<Rightarrow> item \<Rightarrow> item" where
  "set_body b it =
     (case item_mesh it of
        None \<Rightarrow> it
      | Some m \<Rightarrow>
          (case physicsAggregate m of
             None \<Rightarrow> it
           | Some ag \<Rightarrow>
               (case agg_body ag of
                  None \<Rightarrow> it
                | Some _ \<Rightarrow>
                    it\<lparr>item_mesh := Some (m\<lparr>physicsAggregate := Some (ag\<lparr>agg_body := Some b\<rparr>)\<rparr>)\<rparr>)))"

definition map_body :: "(body \<Rightarrow> body) \<Rightarrow> item \<Rightarrow> item" where
  "map_body f it = (case item_body it of None \<Rightarrow> it | Some b \<Rightarrow> set_body (f b) it)"

definition set_position :: "vec3 \<Rightarrow> item \<Rightarrow> item" where
  "set_position p it =
     (case item_mesh it of None \<Rightarrow> it | Some m \<Rightarrow> it\<lparr>item_mesh := Some (m\<lparr>position := p\<rparr>)\<rparr>)"

definition zero_velocities :: "body \<Rightarrow> body" where
  "zero_velocities b = b\<lparr>linearVelocity := Zero3, angularVelocity := Zero3\<rparr>"

text \<open>\<open>item.size ? item.size.x / 2 : d\<close> and the same for \<open>z\<close> and \<open>y\<close>.\<close>

definition half_x :: "item \<Rightarrow> real \<Rightarrow> real" where
  "half_x it d = (case item_size it of None \<Rightarrow> d | Some sz \<Rightarrow> vx sz / 2)"

definition half_y :: "item \<Rightarrow> real \<Rightarrow> real" where
  "half_y it d = (case item_size it of None \<Rightarrow> d | Some sz \<Rightarrow> vy sz / 2)"

definition half_z :: "item \<Rightarrow> real \<Rightarrow> real" where
  "half_z it d = (case item_size it of None \<Rightarrow> d | Some sz \<Rightarrow> vz sz / 2)"

subsection \<open>Coordinate changes\<close>

text \<open>
  World to truck-local, as every pass writes it:
  \<open>localX = dx * cos + dz * sin\<close>, \<open>localZ = -dx * sin + dz * cos\<close>; and back:
  \<open>worldX = position.x + lx * cos - lz * sin\<close>, \<open>worldZ = position.z + lx * sin + lz * cos\<close>.
  The passes differ in the cosine and sine they pass in.
\<close>

definition world_to_local :: "truck \<Rightarrow> real \<Rightarrow> real \<Rightarrow> vec3 \<Rightarrow> real \<times> real" where
  "world_to_local t c s p =
     (let dx = vx p - position_x t;
          dz = vz p - position_z t
      in (dx * c + dz * s, - dx * s + dz * c))"

definition local_to_world :: "truck \<Rightarrow> real \<Rightarrow> real \<Rightarrow> real \<times> real \<Rightarrow> real \<times> real" where
  "local_to_world t c s l =
     (position_x t + fst l * c - snd l * s, position_z t + fst l * s + snd l * c)"

subsection \<open>Teleport window\<close>

definition restoreItemMotionType :: "real \<Rightarrow> item \<Rightarrow> item" where
  "restoreItemMotionType nowMs it =
     (case item_body it of
        None \<Rightarrow> it
      | Some b \<Rightarrow>
          if restoreMotionAt it = 0 \<or> nowMs < restoreMotionAt it then it
          else
            let restoreType = (case restoreMotionType it of None \<Rightarrow> DYNAMIC | Some mt \<Rightarrow> mt)
            in (set_body (setMotionType (Some restoreType) (zero_velocities b)) it)
                 \<lparr>restoreMotionAt := 0, restoreMotionType := None\<rparr>)"

definition teleportItemBody :: "vec3 \<Rightarrow> real \<Rightarrow> item \<Rightarrow> item" where
  "teleportItemBody pos nowMs it =
     (case item_body it of
        None \<Rightarrow> it
      | Some b \<Rightarrow>
          (set_body ((zero_velocities (setMotionType PhysicsMotionType_KINEMATIC b))
                       \<lparr>targetTransform := Some pos\<rparr>) it)
            \<lparr>restoreMotionType := Some (motionType b), restoreMotionAt := nowMs + 150\<rparr>)"

subsection \<open>Velocity ceilings\<close>

definition MAX_REL_LINEAR_VELOCITY :: real where "MAX_REL_LINEAR_VELOCITY = 8.0"
definition MAX_ANGULAR_VELOCITY :: real where "MAX_ANGULAR_VELOCITY = 3.0"
definition MAX_VERTICAL_VELOCITY :: real where "MAX_VERTICAL_VELOCITY = 4.0"

text \<open>Horizontal speed of a velocity relative to the truck's velocity.\<close>

definition rel_speed :: "real \<Rightarrow> real \<Rightarrow> vec3 \<Rightarrow> real" where
  "rel_speed truckVelX truckVelZ v =
     (let relX = vx v - truckVelX; relZ = vz v - truckVelZ in sqrt (relX * relX + relZ * relZ))"

definition ang_speed :: "vec3 \<Rightarrow> real" where
  "ang_speed a = sqrt (vx a * vx a + vy a * vy a + vz a * vz a)"

text \<open>The angular cap, the same in both passes.\<close>

definition cap_angular :: "body \<Rightarrow> body" where
  "cap_angular b =
     (let angVel = angularVelocity b;
          angSpeed = ang_speed angVel
      in if angSpeed > MAX_ANGULAR_VELOCITY then
           let scale = MAX_ANGULAR_VELOCITY / angSpeed
           in b\<lparr>angularVelocity := Vector3 (vx angVel * scale) (vy angVel * scale) (vz angVel * scale)\<rparr>
         else b)"

text \<open>The linear cap of the pre-step pass (\<open>updateLoadedItems\<close>).\<close>

definition pre_cap_linear :: "real \<Rightarrow> real \<Rightarrow> body \<Rightarrow> body" where
  "pre_cap_linear truckVelX truckVelZ b =
     (let vel = linearVelocity b;
          relX = vx vel - truckVelX;
          relZ = vz vel - truckVelZ;
          relSpeed = sqrt (relX * relX + relZ * relZ)
      in if relSpeed > MAX_REL_LINEAR_VELOCITY then
           let scale = MAX_REL_LINEAR_VELOCITY / relSpeed
           in b\<lparr>linearVelocity :=
                  Vector3 (truckVelX + relX * scale)
                    (max (- MAX_VERTICAL_VELOCITY) (min MAX_VERTICAL_VELOCITY (vy vel)))
                    (truckVelZ + relZ * scale)\<rparr>
         else if \<bar>vy vel\<bar> > MAX_VERTICAL_VELOCITY then
           b\<lparr>linearVelocity := Vector3 (vx vel) (sgn (vy vel) * MAX_VERTICAL_VELOCITY) (vz vel)\<rparr>
         else b)"

text \<open>The linear cap of the post-step pass (\<open>enforceItemBounds\<close>).\<close>

definition post_cap_linear :: "real \<Rightarrow> real \<Rightarrow> body \<Rightarrow> body" where
  "post_cap_linear truckVelX truckVelZ b =
     (let vel = linearVelocity b;
          relX = vx vel - truckVelX;
          relZ = vz vel - truckVelZ;
          relSpeed = sqrt (relX * relX + relZ * relZ);
          capH = (relSpeed > MAX_REL_LINEAR_VELOCITY);
          scale = MAX_REL_LINEAR_VELOCITY / relSpeed;
          newVelX = (if capH then truckVelX + relX * scale else vx vel);
          newVelZ = (if capH then truckVelZ + relZ * scale else vz vel);
          capV = (\<bar>vy vel\<bar> > MAX_VERTICAL_VELOCITY);
          newVelY = (if capV then sgn (vy vel) * MAX_VERTICAL_VELOCITY else vy vel);
          linearCapped = (capH \<or> capV)
      in if linearCapped then b\<lparr>linearVelocity := Vector3 newVelX newVelY newVelZ\<rparr> else b)"

subsection \<open>Pre-step pass (\<open>updateLoadedItems\<close>), one loop iteration per definition group\<close>

text \<open>
  The body of a new \<open>BABYLON.PhysicsAggregate\<close>: the engine makes it \<open>STATIC\<close> for
  mass \<open>0\<close> and \<open>DYNAMIC\<close> otherwise. Its velocities and damping are overwritten by the
  caller before anything reads them.
\<close>

definition new_aggregate_body :: "physics_params \<Rightarrow> body" where
  "new_aggregate_body params =
     \<lparr>linearVelocity = Zero3, angularVelocity = Zero3,
      motionType = (if pp_mass params = 0 then STATIC else DYNAMIC),
      linearDamping = 0, angularDamping = 0, targetTransform = None\<rparr>"

text \<open>
  Creation of the delayed physics body; the loop then continues with the next item. The
  branch is entered only with \<open>item.mesh._pendingPhysics\<close> set.
\<close>

definition create_physics :: "real \<Rightarrow> item \<Rightarrow> item" where
  "create_physics nowMs it =
     (case item_mesh it of
        None \<Rightarrow> it
      | Some m \<Rightarrow>
          (case pendingPhysics m of
             None \<Rightarrow> it
           | Some params \<Rightarrow>
               let b0 = setMotionType PhysicsMotionType_KINEMATIC (new_aggregate_body params);
                   b = (zero_velocities b0)\<lparr>linearDamping := 15.0, angularDamping := 20.0\<rparr>;
                   m' = m\<lparr>physicsAggregate := Some \<lparr>agg_body = Some b\<rparr>, pendingPhysics := None\<rparr>
               in it\<lparr>item_mesh := Some m', createPhysicsAt := 0, becomeDynamicAt := nowMs + 100,
                     dampingBoostUntil := nowMs + 500, dampingBoosted := True,
                     lockLateralUntil := nowMs + 300\<rparr>))"

definition become_dynamic :: "real \<Rightarrow> item \<Rightarrow> item" where
  "become_dynamic nowMs it =
     (case item_body it of
        None \<Rightarrow> it
      | Some b \<Rightarrow>
          if becomeDynamicAt it \<noteq> 0 \<and> nowMs \<ge> becomeDynamicAt it then
            (set_body (setMotionType (Some DYNAMIC) (zero_velocities b)) it)\<lparr>becomeDynamicAt := 0\<rparr>
          else it)"

text \<open>An item that is still settling rides along with the truck.\<close>

definition settle_with_truck :: "truck \<Rightarrow> real \<Rightarrow> real \<Rightarrow> item \<Rightarrow> item" where
  "settle_with_truck t c s it =
     (case (item_mesh it, localX it, localZ it) of
        (Some m, Some lx, Some lz) \<Rightarrow>
          let w = local_to_world t c s (lx, lz);
              p = Vector3 (fst w) (vy (position m)) (snd w);
              it1 = set_position p it
          in map_body (\<lambda>b. b\<lparr>targetTransform := Some p\<rparr>) it1
      | _ \<Rightarrow> it)"

definition damping_step :: "real \<Rightarrow> bool \<Rightarrow> item \<Rightarrow> item" where
  "damping_step nowMs isTruckMoving it =
     (case item_body it of
        None \<Rightarrow> it
      | Some b \<Rightarrow>
          if dampingBoostUntil it \<noteq> 0 \<and> nowMs < dampingBoostUntil it \<and> \<not> isTruckMoving then
            (if \<not> dampingBoosted it then
               (set_body (b\<lparr>linearDamping := max (or_default (Some (baseLinearDamping it)) 3.0) 12.0,
                            angularDamping := max (or_default (Some (baseAngularDamping it)) 8.0) 16.0\<rparr>) it)
                 \<lparr>dampingBoosted := True\<rparr>
             else it)
          else if dampingBoosted it then
            (set_body (b\<lparr>linearDamping := or_default (Some (baseLinearDamping it)) 3.0,
                         angularDamping := or_default (Some (baseAngularDamping it)) 8.0\<rparr>) it)
              \<lparr>dampingBoosted := False\<rparr>
          else it)"

definition lock_lateral_step :: "real \<Rightarrow> bool \<Rightarrow> item \<Rightarrow> item" where
  "lock_lateral_step nowMs isTruckMoving it =
     (if lockLateralUntil it \<noteq> 0 \<and> nowMs < lockLateralUntil it \<and> \<not> isTruckMoving then
        map_body (\<lambda>b. b\<lparr>linearVelocity := Vector3 0 (min (vy (linearVelocity b)) 0) 0,
                        angularVelocity := Zero3\<rparr>) it
      else if lockLateralUntil it \<noteq> 0 \<and> (nowMs \<ge> lockLateralUntil it \<or> isTruckMoving) then
        it\<lparr>lockLateralUntil := 0\<rparr>
      else it)"

definition track_local :: "real \<times> real \<Rightarrow> item \<Rightarrow> item" where
  "track_local l it =
     (case item_mesh it of
        None \<Rightarrow> it
      | Some m \<Rightarrow>
          (case physicsAggregate m of
             None \<Rightarrow> it
           | Some _ \<Rightarrow> it\<lparr>localX := Some (fst l), localZ := Some (snd l),
                          localY := Some (vy (position m))\<rparr>))"

text \<open>The velocity part of the hard clamp: the component pointing into the wall is zeroed.\<close>

definition clamp_velocity :: "real \<Rightarrow> real \<Rightarrow> real \<times> real \<Rightarrow> real \<Rightarrow> real \<Rightarrow> body \<Rightarrow> body" where
  "clamp_velocity c s l maxLocalX minLocalZ b =
     (let vel = linearVelocity b;
          localVelX = vx vel * c + vz vel * s;
          localVelZ = - vx vel * s + vz vel * c;
          newLocalVelX = (if (fst l < - maxLocalX \<and> localVelX < 0) \<or> (fst l > maxLocalX \<and> localVelX > 0)
                          then 0 else localVelX);
          newLocalVelZ = (if snd l < minLocalZ \<and> localVelZ < 0 then 0 else localVelZ)
      in b\<lparr>linearVelocity := Vector3 (newLocalVelX * c - newLocalVelZ * s) (vy vel)
                                  (newLocalVelX * s + newLocalVelZ * c)\<rparr>)"

text \<open>The hard position clamp (left, right and front; the back is open).\<close>

definition hard_clamp :: "truck \<Rightarrow> real \<Rightarrow> real \<Rightarrow> real \<Rightarrow> real \<times> real \<Rightarrow> item \<Rightarrow> item" where
  "hard_clamp t nowMs c s l it =
     (let halfX = half_x it 0.3;
          halfZ = half_z it 0.3;
          maxLocalX = cargoWidth t / 2 - halfX - 0.05;
          minLocalZ = - cargoLength t / 2 + halfZ + 0.05;
          clampedLocalX = (if fst l > maxLocalX then maxLocalX
                           else if fst l < - maxLocalX then - maxLocalX else fst l);
          clampedLocalZ = (if snd l < minLocalZ then minLocalZ else snd l);
          needsClamp = (fst l < - maxLocalX \<or> fst l > maxLocalX \<or> snd l < minLocalZ)
      in if needsClamp \<and> \<not> isFallen it then
           (case item_mesh it of
              None \<Rightarrow> it
            | Some m \<Rightarrow>
                let w = local_to_world t c s (clampedLocalX, clampedLocalZ);
                    p = Vector3 (fst w) (vy (position m)) (snd w);
                    it1 = set_position p it;
                    it2 = teleportItemBody p nowMs it1
                in map_body (clamp_velocity c s l maxLocalX minLocalZ) it2)
         else it)"

definition pre_cap :: "real \<Rightarrow> real \<Rightarrow> item \<Rightarrow> item" where
  "pre_cap truckVelX truckVelZ it =
     (if \<not> isFallen it then map_body (\<lambda>b. cap_angular (pre_cap_linear truckVelX truckVelZ b)) it
      else it)"

definition pre_fallen_check :: "truck \<Rightarrow> real \<times> real \<Rightarrow> item \<Rightarrow> item" where
  "pre_fallen_check t l it =
     (case item_mesh it of
        None \<Rightarrow> it
      | Some m \<Rightarrow>
          if \<not> isFallen it then
            let itemHalfX = half_x it 0.25;
                itemHalfZ = half_z it 0.25;
                maxX = cargoWidth t / 2 + 1.0;
                maxZ = cargoLength t / 2 + 1.0
            in if vy (position m) < floorTopY t - 0.5 \<or> \<bar>fst l\<bar> > maxX + itemHalfX \<or>
                  snd l > maxZ + itemHalfZ
               then it\<lparr>isFallen := True\<rparr> else it
          else it)"

text \<open>
  The correction part of an iteration: hard clamp (with its teleport), velocity caps, and
  the fallen test.
\<close>

definition clamp_cap_check ::
  "truck \<Rightarrow> real \<Rightarrow> real \<Rightarrow> real \<Rightarrow> real \<Rightarrow> real \<Rightarrow> real \<times> real \<Rightarrow> item \<Rightarrow> item" where
  "clamp_cap_check t nowMs c s truckVelX truckVelZ l it5 =
     (let it6 = hard_clamp t nowMs c s l it5;
          it7 = pre_cap truckVelX truckVelZ it6
      in pre_fallen_check t l it7)"

text \<open>One iteration of the loop of \<open>updateLoadedItems\<close>.\<close>

definition updateLoadedItem :: "truck \<Rightarrow> real \<Rightarrow> real \<Rightarrow> real \<Rightarrow> real \<Rightarrow> item \<Rightarrow> item" where
  "updateLoadedItem t nowMs dt moveX moveZ it0 =
     (case item_mesh it0 of
        None \<Rightarrow> it0
      | Some m0 \<Rightarrow>
          let c = cos (rotation t);
              s = sin (rotation t);
              isTruckMoving = (\<bar>speed t\<bar> > 0.5);
              truckVelX = (if dt > 0 then moveX / dt else 0);
              truckVelZ = (if dt > 0 then moveZ / dt else 0);
              hadBody = has_body it0;
              it1 = restoreItemMotionType nowMs it0
          in if \<not> hadBody \<and> createPhysicsAt it1 \<noteq> 0 \<and> nowMs \<ge> createPhysicsAt it1 \<and>
                pendingPhysics m0 \<noteq> None
             then create_physics nowMs it1
             else
               let it2 = become_dynamic nowMs it1
               in if createPhysicsAt it2 > 0 \<or> becomeDynamicAt it2 > 0
                  then settle_with_truck t c s it2
                  else
                    let l = world_to_local t c s (position m0);
                        it3 = damping_step nowMs isTruckMoving it2;
                        it4 = lock_lateral_step nowMs isTruckMoving it3;
                        it5 = track_local l it4
                    in clamp_cap_check t nowMs c s truckVelX truckVelZ l it5)"

definition updateLoadedItems :: "real \<Rightarrow> real \<Rightarrow> real \<Rightarrow> real \<Rightarrow> truck \<Rightarrow> truck" where
  "updateLoadedItems nowMs dt moveX moveZ t =
     t\<lparr>loadedItems := map (updateLoadedItem t nowMs dt moveX moveZ) (loadedItems t)\<rparr>"

subsection \<open>Post-step pass (\<open>enforceItemBounds\<close>)\<close>

definition safeMargin :: real where "safeMargin = 0.1"

text \<open>The local position the wall checks decide on: (newLocalX, newLocalZ).\<close>

definition corrected_local :: "truck \<Rightarrow> real \<Rightarrow> real \<Rightarrow> real \<times> real \<Rightarrow> real \<times> real" where
  "corrected_local t halfX halfZ l =
     (let wallInnerX = cargoWidth t / 2;
          wallInnerFrontZ = - cargoLength t / 2;
          itemLeftEdge = fst l - halfX;
          itemRightEdge = fst l + halfX;
          itemFrontEdge = snd l - halfZ;
          newLocalX = (if itemRightEdge > wallInnerX then wallInnerX - halfX - safeMargin
                       else if itemLeftEdge < - wallInnerX then - wallInnerX + halfX + safeMargin
                       else fst l);
          newLocalZ = (if itemFrontEdge < wallInnerFrontZ then wallInnerFrontZ + halfZ + safeMargin
                       else snd l)
      in (newLocalX, newLocalZ))"

text \<open>\<open>correctedX || correctedZ\<close>\<close>

definition breaches_wall :: "truck \<Rightarrow> real \<Rightarrow> real \<Rightarrow> real \<times> real \<Rightarrow> bool" where
  "breaches_wall t halfX halfZ l =
     (fst l - halfX < - (cargoWidth t / 2) \<or> fst l + halfX > cargoWidth t / 2 \<or>
      snd l - halfZ < - cargoLength t / 2)"

definition wayOutside :: "truck \<Rightarrow> real \<Rightarrow> real \<Rightarrow> real \<times> real \<Rightarrow> real \<Rightarrow> bool" where
  "wayOutside t halfX halfZ l y =
     (let outerHalfX = cargoWidth t / 2 + 1.0;
          outerFrontZ = - cargoLength t / 2 - 1.0;
          outerBackZ = cargoLength t / 2 + 2.0;
          floorY = floorTopY t - 0.5
      in \<bar>fst l\<bar> > outerHalfX + halfX \<or> snd l < outerFrontZ - halfZ \<or>
         snd l > outerBackZ + halfZ \<or> y < floorY)"

text \<open>The teleport of a breaching item that has a body.\<close>

definition post_teleport :: "truck \<Rightarrow> real \<Rightarrow> real \<Rightarrow> real \<Rightarrow> real \<times> real \<Rightarrow> item \<Rightarrow> item" where
  "post_teleport t nowMs c s nl it =
     (case item_mesh it of
        None \<Rightarrow> it
      | Some m \<Rightarrow>
          let w = local_to_world t c s nl;
              p = Vector3 (fst w) (vy (position m)) (snd w);
              it1 = map_body zero_velocities it;
              it2 = set_position p it1
          in teleportItemBody p nowMs it2)"

text \<open>
  One iteration of the loop of \<open>enforceItemBounds\<close>. \<open>body\<close> is read once, before
  \<open>restoreItemMotionType\<close>, and the later tests \<open>if (body)\<close> are tests on that reference.
\<close>

definition enforceItem :: "truck \<Rightarrow> real \<Rightarrow> item \<Rightarrow> item" where
  "enforceItem t nowMs it0 =
     (case item_mesh it0 of
        None \<Rightarrow> it0
      | Some m0 \<Rightarrow>
          if isFallen it0 then it0
          else if createPhysicsAt it0 > 0 then it0
          else
            let c = cos (- rotation t);
                s = sin (- rotation t);
                truckVelX = truckWorldVelX t;
                truckVelZ = truckWorldVelZ t;
                hasBody = has_body it0;
                it1 = restoreItemMotionType nowMs it0;
                it2 = map_body (\<lambda>b. cap_angular (post_cap_linear truckVelX truckVelZ b)) it1;
                halfX = half_x it0 0.3;
                halfZ = half_z it0 0.3;
                l = world_to_local t c s (position m0);
                it3 = it2\<lparr>localX := Some (fst l), localZ := Some (snd l),
                          localY := Some (vy (position m0))\<rparr>;
                it4 = (if breaches_wall t halfX halfZ l \<and> hasBody
                       then post_teleport t nowMs c s (corrected_local t halfX halfZ l) it3
                       else it3)
            in if wayOutside t halfX halfZ l (vy (position m0)) \<and> \<not> isFallen it4
               then it4\<lparr>isFallen := True\<rparr> else it4)"

definition enforceItemBounds :: "real \<Rightarrow> truck \<Rightarrow> truck" where
  "enforceItemBounds nowMs t = t\<lparr>loadedItems := map (enforceItem t nowMs) (loadedItems t)\<rparr>"

text \<open>
  Where an item is in truck-local coordinates, by the transformation of the post-step pass.
\<close>

definition item_local :: "truck \<Rightarrow> item \<Rightarrow> (real \<times> real) option" where
  "item_local t it =
     (case item_position it of
        None \<Rightarrow> None
      | Some p \<Rightarrow> Some (world_to_local t (cos (- rotation t)) (sin (- rotation t)) p))"


section \<open>Driving frame (\<open>updateDriving\<close>)\<close>

text \<open>The quantities the steering code computes before it rotates the truck.\<close>

definition rawTurnInput :: "keys \<Rightarrow> real" where
  "rawTurnInput ek = (if key_a ek then 1 else 0) + (if key_d ek then -1 else 0)"

definition smoothedTurnInput :: "keys \<Rightarrow> real \<Rightarrow> truck \<Rightarrow> real" where
  "smoothedTurnInput ek dt t =
     (let turnLerp = min 1 (dt * 12) in turnInput t + (rawTurnInput ek - turnInput t) * turnLerp)"

definition canDrift :: "keys \<Rightarrow> bool \<Rightarrow> truck \<Rightarrow> bool" where
  "canDrift ek autoBraking t =
     (let isTurning = (\<bar>rawTurnInput ek\<bar> > 0.01);
          isBraking = (key_space ek \<or> key_s ek \<or> autoBraking);
          speedThreshold = maxSpeed t * 0.3
      in isBraking \<and> isTurning \<and> \<bar>speed t\<bar> > speedThreshold)"

definition effectivePivotOffset :: "truck \<Rightarrow> real" where
  "effectivePivotOffset t =
     (let absSpeed = \<bar>speed t\<bar>; pivotBlend = min 1 (absSpeed / 15) in rearAxleOffset t * pivotBlend)"

text \<open>
  The turn rate the steering branch stores (the fresh turn input is \<open>ti\<close>); \<open>None\<close> when
  the input is inside the dead zone and neither branch assigns.
\<close>

definition steerRate :: "keys \<Rightarrow> bool \<Rightarrow> real \<Rightarrow> truck \<Rightarrow> real option" where
  "steerRate ek autoBraking ti t =
     (let turnFactor = (if speed t < 0 then -1 else (1::real));
          absSpeed = \<bar>speed t\<bar>;
          speedTurnScale = min 1 (absSpeed / 20);
          effectiveTurnSpeed = turnSpeed t * speedTurnScale;
          driftTurnBoost = (if canDrift ek autoBraking t then 1.3 else (1::real));
          inputScale = min 1 \<bar>ti\<bar>
      in if ti > 0.01 then Some (effectiveTurnSpeed * turnFactor * driftTurnBoost * inputScale)
         else if ti < -0.01 then Some (- effectiveTurnSpeed * turnFactor * driftTurnBoost * inputScale)
         else None)"

definition deltaRotation :: "keys \<Rightarrow> bool \<Rightarrow> real \<Rightarrow> real \<Rightarrow> truck \<Rightarrow> real" where
  "deltaRotation ek autoBraking dt ti t =
     (let turnFactor = (if speed t < 0 then -1 else (1::real));
          absSpeed = \<bar>speed t\<bar>;
          speedTurnScale = min 1 (absSpeed / 20);
          effectiveTurnSpeed = turnSpeed t * speedTurnScale;
          driftTurnBoost = (if canDrift ek autoBraking t then 1.3 else (1::real));
          inputScale = min 1 \<bar>ti\<bar>
      in if ti > 0.01 then effectiveTurnSpeed * dt * turnFactor * driftTurnBoost * inputScale
         else if ti < -0.01 then - effectiveTurnSpeed * dt * turnFactor * driftTurnBoost * inputScale
         else 0)"

definition driftBuild :: "keys \<Rightarrow> bool \<Rightarrow> real \<Rightarrow> real \<Rightarrow> truck \<Rightarrow> real" where
  "driftBuild ek autoBraking dt ti t =
     (if canDrift ek autoBraking t \<and> ti > 0.01 then min 0.15 (driftAngle t + dt * 0.8)
      else if canDrift ek autoBraking t \<and> ti < -0.01 then max (-0.15) (driftAngle t - dt * 0.8)
      else driftAngle t)"

text \<open>The steering section: turn input smoothing, drift, rotation about the pivot.\<close>

definition turningUpdate :: "keys \<Rightarrow> bool \<Rightarrow> real \<Rightarrow> truck \<Rightarrow> truck" where
  "turningUpdate ek autoBraking dt t0 =
     (let ti = smoothedTurnInput ek dt t0;
          t = t0\<lparr>turnRate := 0, turnInput := ti\<rparr>
      in if \<bar>speed t\<bar> > 0.1 then
           let pivotX = position_x t + sin (rotation t) * effectivePivotOffset t;
               pivotZ = position_z t + cos (rotation t) * effectivePivotOffset t;
               dr = deltaRotation ek autoBraking dt ti t;
               t' = t\<lparr>isDrifting := canDrift ek autoBraking t,
                       turnRate := (case steerRate ek autoBraking ti t of
                                      None \<Rightarrow> turnRate t | Some r \<Rightarrow> r),
                       driftAngle := driftBuild ek autoBraking dt ti t\<rparr>
           in if dr \<noteq> 0 then
                t'\<lparr>rotation := rotation t' + dr,
                    position_x := pivotX - sin (rotation t' + dr) * effectivePivotOffset t,
                    position_z := pivotZ - cos (rotation t' + dr) * effectivePivotOffset t\<rparr>
              else t'
         else t\<lparr>isDrifting := False\<rparr>)"

text \<open>The collision veto on the rotation.\<close>

definition rotationVeto :: "intersects \<Rightarrow> int \<Rightarrow> real \<Rightarrow> real \<Rightarrow> real \<Rightarrow> truck \<Rightarrow> truck" where
  "rotationVeto isect frameId prevRotation prevPosX prevPosZ t =
     (if rotation t \<noteq> prevRotation then
        let r = checkMeshCollision isect frameId (position_x t) (position_z t) (rotation t) t;
            rotationCollides = fst r;
            t1 = snd r
        in if rotationCollides then
             t1\<lparr>rotation := prevRotation, position_x := prevPosX, position_z := prevPosZ,
                turnRate := 0, driftAngle := 0\<rparr>
           else t1
      else t)"

definition driftDecay :: "truck \<Rightarrow> truck" where
  "driftDecay t =
     (if \<not> isDrifting t then
        let d = driftAngle t * 0.9 in t\<lparr>driftAngle := (if \<bar>d\<bar> < 0.01 then 0 else d)\<rparr>
      else t)"

text \<open>The displacement of the frame, (moveX, moveZ).\<close>

definition frame_move :: "real \<Rightarrow> truck \<Rightarrow> real \<times> real" where
  "frame_move dt t =
     (let moveDirection = rotation t + driftAngle t;
          speedMps = speed t * 0.44704
      in (sin moveDirection * speedMps * dt, cos moveDirection * speedMps * dt))"

definition translationUpdate :: "intersects \<Rightarrow> int \<Rightarrow> real \<Rightarrow> truck \<Rightarrow> truck" where
  "translationUpdate isect frameId dt t =
     (let moveX = fst (frame_move dt t);
          moveZ = snd (frame_move dt t);
          t1 = t\<lparr>truckWorldVelX := (if dt > 0 then moveX / dt else 0),
                 truckWorldVelZ := (if dt > 0 then moveZ / dt else 0)\<rparr>;
          newPosX = position_x t1 + moveX;
          newPosZ = position_z t1 + moveZ;
          r = checkMeshCollision isect frameId newPosX newPosZ (rotation t1) t1;
          wouldCollide = fst r;
          t2 = snd r
      in if \<not> wouldCollide then t2\<lparr>position_x := newPosX, position_z := newPosZ\<rparr>
         else t2\<lparr>speed := speed t2 * 0.5\<rparr>)"

definition applyTransform :: "truck \<Rightarrow> truck" where
  "applyTransform t =
     t\<lparr>root_node := (root_node t)\<lparr>pose_x := position_x t, pose_z := position_z t, pose_rotY := rotation t\<rparr>\<rparr>"

text \<open>
  \<open>updateDriving\<close> up to the steering: countdown, speed update, gearing, acceleration.
\<close>

definition beforeTurning :: "real \<Rightarrow> bool \<Rightarrow> truck \<Rightarrow> truck" where
  "beforeTurning deltaTime inputEnabled t0 =
     (let dt = min deltaTime 0.05;
          t1 = autoBrakeCountdown dt t0;
          t2 = t1\<lparr>prevSpeed := speed t1\<rparr>;
          ek = effectiveKeys inputEnabled t2;
          t3 = speedUpdate ek dt t2;
          t4 = updateGear t3
      in t4\<lparr>currentAcceleration :=
               (if dt = 0 then None else Some ((speed t4 - prevSpeed t4) / dt))\<rparr>)"

text \<open>The state of \<open>updateDriving\<close> when the rotation veto is reached.\<close>

definition beforeVeto :: "real \<Rightarrow> bool \<Rightarrow> truck \<Rightarrow> truck" where
  "beforeVeto deltaTime inputEnabled t0 =
     (let dt = min deltaTime 0.05;
          t5 = beforeTurning deltaTime inputEnabled t0;
          autoBraking = (autoBrakeTimer t5 > 0);
          ek = effectiveKeys inputEnabled t5
      in turningUpdate ek autoBraking dt t5)"

definition updateDriving :: "intersects \<Rightarrow> int \<Rightarrow> real \<Rightarrow> real \<Rightarrow> bool \<Rightarrow> truck \<Rightarrow> truck" where
  "updateDriving isect frameId nowMs deltaTime inputEnabled t0 =
     (let dt = min deltaTime 0.05;
          prevRotation = rotation t0;
          prevPosX = position_x t0;
          prevPosZ = position_z t0;
          t6 = beforeVeto deltaTime inputEnabled t0;
          t7 = rotationVeto isect frameId prevRotation prevPosX prevPosZ t6;
          t8 = driftDecay t7;
          moveX = fst (frame_move dt t8);
          moveZ = snd (frame_move dt t8);
          t9 = applyTransform (translationUpdate isect frameId dt t8)
      in if enableItemPhysics t9 then updateLoadedItems nowMs dt moveX moveZ t9 else t9)"

section \<open>Game layer: fallen-item polling and the fall-out callback\<close>

record game =
  isRunning :: bool
  isPaused :: bool
  fallOutTriggered :: bool
  callbackCalls :: nat
  lossEffects :: nat

text \<open>
  \<open>onItemFellOut\<close>: \<open>callbackCalls\<close> counts the invocations, \<open>lossEffects\<close> the
  invocations that get past the guard (error sound, loss screen timer).
\<close>

definition onItemFellOut :: "game \<Rightarrow> game" where
  "onItemFellOut g =
     (let g1 = g\<lparr>callbackCalls := Suc (callbackCalls g)\<rparr>
      in if fallOutTriggered g1 then g1
         else g1\<lparr>fallOutTriggered := True, lossEffects := Suc (lossEffects g1)\<rparr>)"

text \<open>The test of \<open>Game.update\<close> on one item that has a mesh.\<close>

definition game_fell :: "truck \<Rightarrow> item \<Rightarrow> mesh \<Rightarrow> bool" where
  "game_fell t it m =
     (let floorY = floorTopY t;
          c = cos (- rotation t);
          s = sin (- rotation t);
          halfW = cargoWidth t / 2;
          halfL = cargoLength t / 2;
          itemHalfHeight = half_y it 0.3;
          l = (if isParented it \<and> parentIsTruckRoot m then (vx (position m), vz (position m))
               else world_to_local t c s (position m));
          localY = vy (position m);
          itemBottomY = localY - itemHalfHeight;
          fellBelowFloor = (itemBottomY < floorY - 0.3);
          outsideX = (\<bar>fst l\<bar> > halfW + 0.5);
          outsideFront = (snd l < - halfL - 0.5);
          outsideBack = (snd l > halfL + 1.0)
      in fellBelowFloor \<or> outsideX \<or> outsideFront \<or> outsideBack)"

text \<open>Whether the pass marks this item now.\<close>

definition newly_fallen :: "truck \<Rightarrow> item \<Rightarrow> bool" where
  "newly_fallen t it =
     (case item_mesh it of None \<Rightarrow> False | Some m \<Rightarrow> \<not> isFallen it \<and> game_fell t it m)"

definition game_check_item :: "truck \<Rightarrow> item \<Rightarrow> item" where
  "game_check_item t it = (if newly_fallen t it then it\<lparr>isFallen := True\<rparr> else it)"

text \<open>
  \<open>Game.update\<close>, on the placed items. \<open>placeItem\<close> puts one and the same object into
  \<open>placedItems\<close> and into the truck's \<open>loadedItems\<close>, and both arrays are emptied
  together when a level starts, so the model keeps the one list in the truck.
\<close>

definition game_update :: "game \<Rightarrow> truck \<Rightarrow> game \<times> truck" where
  "game_update g t =
     (if \<not> isRunning g \<or> isPaused g then (g, t)
      else
        let newlyFallen = count_points (newly_fallen t) (loadedItems t);
            t' = t\<lparr>loadedItems := map (game_check_item t) (loadedItems t)\<rparr>
        in (if newlyFallen > 0 then onItemFellOut g else g, t'))"

text \<open>A round starts with the flag cleared (\<open>startAtLevel\<close>, \<open>resetLevel\<close>).\<close>

definition start_round :: "game \<Rightarrow> game" where
  "start_round g = g\<lparr>isRunning := True, fallOutTriggered := False, callbackCalls := 0, lossEffects := 0\<rparr>"

text \<open>
  The frames of a round as the render loop runs them: the driving update with its pre-step
  pass, the game update, the physics step, and the post-step pass from the after-physics
  hook. The physics engine is external: each frame comes with the function by which the
  step changes the mesh (position, aggregate and body) of the item at each index. The
  engine knows nothing of the game's item objects, so their other fields stay as they are.
\<close>

record frame_input =
  fi_frameId :: int
  fi_nowMs :: real
  fi_deltaTime :: real
  fi_inputEnabled :: bool
  fi_physics :: "nat \<Rightarrow> mesh \<Rightarrow> mesh"

definition physics_item :: "(nat \<Rightarrow> mesh \<Rightarrow> mesh) \<Rightarrow> nat \<times> item \<Rightarrow> item" where
  "physics_item f p =
     (case item_mesh (snd p) of
        None \<Rightarrow> snd p
      | Some m \<Rightarrow> (snd p)\<lparr>item_mesh := Some (f (fst p) m)\<rparr>)"

definition physics_step :: "(nat \<Rightarrow> mesh \<Rightarrow> mesh) \<Rightarrow> item list \<Rightarrow> item list" where
  "physics_step f items = map (physics_item f) (enumerate 0 items)"

definition run_frame :: "intersects \<Rightarrow> frame_input \<Rightarrow> game \<times> truck \<Rightarrow> game \<times> truck" where
  "run_frame isect fi gt =
     (let g = fst gt;
          t1 = (if isRunning g
                then updateDriving isect (fi_frameId fi) (fi_nowMs fi) (min (fi_deltaTime fi) 0.1)
                       (fi_inputEnabled fi) (snd gt)
                else snd gt);
          r = (if \<not> isPaused g then game_update g t1 else (g, t1));
          t2 = (snd r)\<lparr>loadedItems := physics_step (fi_physics fi) (loadedItems (snd r))\<rparr>
      in (fst r, enforceItemBounds (fi_nowMs fi) t2))"

fun run_frames :: "intersects \<Rightarrow> frame_input list \<Rightarrow> game \<times> truck \<Rightarrow> game \<times> truck" where
  "run_frames isect [] gt = gt"
| "run_frames isect (fi # fis) gt = run_frames isect fis (run_frame isect fi gt)"

section \<open>Example states\<close>

text \<open>Concrete inputs at which the theorems below are instantiated.\<close>

definition ex_keys_w :: keys where
  "ex_keys_w = no_keys\<lparr>key_w := True\<rparr>"

definition ex_keys_s :: keys where
  "ex_keys_s = no_keys\<lparr>key_s := True\<rparr>"

definition ex_truck_reversing :: truck where
  "ex_truck_reversing = (new_truck None)\<lparr>speed := 30\<rparr>"

definition ex_truck_gear2 :: truck where
  "ex_truck_gear2 = (new_truck None)\<lparr>speed := - 48, currentGear := 2\<rparr>"

definition ex_truck_slow :: truck where
  "ex_truck_slow = (new_truck None)\<lparr>speed := - 10\<rparr>"

definition ex_thin_wall :: wall_bound where
  "ex_thin_wall = \<lparr>wb_minX = - 0.1, wb_maxX = 0.1, wb_minZ = - 10, wb_maxZ = 10\<rparr>"

definition ex_front_wall :: wall_bound where
  "ex_front_wall = \<lparr>wb_minX = - 10, wb_maxX = 10, wb_minZ = - 5, wb_maxZ = - 4\<rparr>"

definition ex_sm_walls :: "wall_bound list \<Rightarrow> scene_manager" where
  "ex_sm_walls ws = \<lparr>housesByTile = None, groundTileSize = None, pickupHouse = None,
     destinationWalls = None, destinationWallBounds = Some ws\<rparr>"

definition ex_truck_thin :: truck where
  "ex_truck_thin = new_truck (Some (ex_sm_walls [ex_thin_wall]))"

definition ex_truck_front :: truck where
  "ex_truck_front = new_truck (Some (ex_sm_walls [ex_front_wall]))"

definition ex_sm_meshwall :: scene_manager where
  "ex_sm_meshwall = \<lparr>housesByTile = None, groundTileSize = None, pickupHouse = None,
     destinationWalls = Some [Some \<lparr>wall_name = ''wall'', wall_disposed = False\<rparr>],
     destinationWallBounds = None\<rparr>"

definition isect_all :: intersects where
  "isect_all rt m tg = True"

definition ex_dt :: real where "ex_dt = 0.05"

definition ex_keys_wa :: keys where "ex_keys_wa = no_keys\<lparr>key_w := True, key_a := True\<rparr>"

definition ex_truck_turning :: truck where
  "ex_truck_turning =
     (new_truck (Some ex_sm_meshwall))\<lparr>speed := - 50, driftAngle := 0.1,
        truck_keys := ex_keys_wa\<rparr>"

definition ex_truck_parked :: truck where
  "ex_truck_parked = new_truck (Some ex_sm_meshwall)"

definition ex_body :: "vec3 \<Rightarrow> body" where
  "ex_body v = \<lparr>linearVelocity = v, angularVelocity = Zero3, motionType = DYNAMIC,
     linearDamping = 3.0, angularDamping = 8.0, targetTransform = None\<rparr>"

text \<open>An item as \<open>placeItem\<close> and \<open>addLoadedItem\<close> leave it, at a position, with a velocity.\<close>

definition ex_item :: "string \<Rightarrow> vec3 \<Rightarrow> vec3 \<Rightarrow> vec3 \<Rightarrow> item" where
  "ex_item name sz pos vel =
     \<lparr>item_id = name,
      item_mesh = Some \<lparr>position = pos, physicsAggregate = Some \<lparr>agg_body = Some (ex_body vel)\<rparr>,
                        pendingPhysics = None, parentIsTruckRoot = False\<rparr>,
      item_size = Some sz, isFallen = False, isParented = False, createPhysicsAt = 0,
      becomeDynamicAt = 0, dampingBoostUntil = 0, dampingBoosted = False, lockLateralUntil = 0,
      baseLinearDamping = 0, baseAngularDamping = 0,
      localX = Some (vx pos), localZ = Some (vz pos), localY = Some (vy pos),
      restoreMotionAt = 0, restoreMotionType = None\<rparr>"


definition ex_box_right :: item where
  "ex_box_right = ex_item ''Medium Box'' (Vector3 0.6 0.5 0.6) (Vector3 1 1.5 0) (Vector3 0 0 (- 11.176))"

definition ex_truck_cruising :: truck where
  "ex_truck_cruising = (new_truck None)\<lparr>speed := - 25, truckWorldVelZ := - 11.176\<rparr>"

definition ex_game :: game where
  "ex_game = start_round \<lparr>isRunning = False, isPaused = False, fallOutTriggered = False,
                           callbackCalls = 0, lossEffects = 0\<rparr>"

definition ex_frame :: frame_input where
  "ex_frame = \<lparr>fi_frameId = 1, fi_nowMs = 16, fi_deltaTime = 0.016, fi_inputEnabled = True,
               fi_physics = (\<lambda>i m. m)\<rparr>"

definition ex_box_thrown :: item where
  "ex_box_thrown = ex_item ''Medium Box'' (Vector3 0.6 0.5 0.6) (Vector3 10 1.5 0) Zero3"

definition ex_truck_thrown :: truck where
  "ex_truck_thrown = (new_truck None)\<lparr>loadedItems := [ex_box_thrown]\<rparr>"

definition ex_box_low :: item where
  "ex_box_low = ex_item ''Medium Box'' (Vector3 0.6 0.5 0.6) (Vector3 0 0.5 0) Zero3"

definition ex_chair_low :: item where
  "ex_chair_low = ex_item ''Chair'' (Vector3 0.5 0.9 0.5) (Vector3 0.8 0.5 1) Zero3"

definition ex_truck_low :: truck where
  "ex_truck_low = (new_truck None)\<lparr>loadedItems := [ex_box_low, ex_chair_low]\<rparr>"

definition ex_fallen_box :: item where
  "ex_fallen_box = ex_box_thrown\<lparr>isFallen := True\<rparr>"

definition ex_truck_fallen :: truck where
  "ex_truck_fallen = (new_truck None)\<lparr>loadedItems := [ex_fallen_box]\<rparr>"

section \<open>Facts about the constructor state\<close>

lemma new_truck_sel:
  "maxSpeed (new_truck sm) = 110" "speed (new_truck sm) = 0" "autoBrakeTimer (new_truck sm) = 0"
  "currentGear (new_truck sm) = 0" "gearAcceleration (new_truck sm) = [12, 12, 8, 5, 3, 1.5]"
  "baseAcceleration (new_truck sm) = 15" "brakeDeceleration (new_truck sm) = 60"
  "deceleration (new_truck sm) = 18"
  "gearSpeeds (new_truck sm) = [0, 25, 50, 75, 95, 110]"
  "gearDownSpeeds (new_truck sm) = [0, 20, 45, 70, 90, 105]"
  by (simp_all add: new_truck_def)

section \<open>Speed update\<close>

lemma clampSpeed_range:
  "0 \<le> maxSpeed t \<Longrightarrow> - maxSpeed t \<le> clampSpeed t v \<and> clampSpeed t v \<le> maxSpeed t * 0.3"
  by (auto simp: clampSpeed_def)

lemma speedUpdate_speed:
  "speed (speedUpdate ek dt t) =
     (let v = clampSpeed t (accelerate ek (autoBrakeTimer t > 0) dt t)
      in if autoBrakeTimer t = 0 \<and> \<bar>v\<bar> < 0.2 then 0 else v)"
  by (auto simp: speedUpdate_def Let_def)

lemma updateGear_speed: "speed (updateGear t) = speed t"
  by (simp add: updateGear_def Let_def)

lemma turningUpdate_speed: "speed (turningUpdate ek ab dt t) = speed t"
  by (simp add: turningUpdate_def Let_def)

lemma beforeVeto_speed:
  "speed (beforeVeto deltaTime inputEnabled t0) =
   speed (speedUpdate (effectiveKeys inputEnabled t0) (min deltaTime 0.05)
            ((autoBrakeCountdown (min deltaTime 0.05) t0)\<lparr>prevSpeed := speed t0\<rparr>))"
  by (simp add: beforeVeto_def beforeTurning_def Let_def turningUpdate_speed updateGear_speed
      effectiveKeys_def autoBrakeCountdown_def)

lemma countdown_maxSpeed: "maxSpeed ((autoBrakeCountdown dt t)\<lparr>prevSpeed := v\<rparr>) = maxSpeed t"
  by (simp add: autoBrakeCountdown_def)

lemma speedUpdate_range:
  assumes "0 \<le> maxSpeed t"
  shows "- maxSpeed t \<le> speed (speedUpdate ek dt t) \<and> speed (speedUpdate ek dt t) \<le> maxSpeed t * 0.3"
  using clampSpeed_range[OF assms] assms
  by (auto simp: speedUpdate_speed Let_def)

text \<open>
  C4. After the speed-update step the speed lies in \<open>[-maxSpeed, maxSpeed * 0.3]\<close>, whatever
  the keys, the auto-brake timer and \<open>dt\<close> are: for the step on its own, and for the state
  \<open>updateDriving\<close> has reached when it turns to the steering. (\<open>maxSpeed\<close> is the constant
  110 of the constructor; the proof needs only that it is not negative.)
\<close>

theorem speed_in_range:
  assumes "0 \<le> maxSpeed t"
  shows "- maxSpeed t \<le> speed (speedUpdate ek dt t) \<and>
         speed (speedUpdate ek dt t) \<le> maxSpeed t * 0.3 \<and>
         - maxSpeed t \<le> speed (beforeVeto deltaTime inputEnabled t) \<and>
         speed (beforeVeto deltaTime inputEnabled t) \<le> maxSpeed t * 0.3"
proof -
  let ?t1 = "(autoBrakeCountdown (min deltaTime 0.05) t)\<lparr>prevSpeed := speed t\<rparr>"
  have m: "maxSpeed ?t1 = maxSpeed t" by (rule countdown_maxSpeed)
  have "0 \<le> maxSpeed ?t1" using assms m by simp
  from speedUpdate_range[OF this, of "effectiveKeys inputEnabled t" "min deltaTime 0.05"]
  have b: "- maxSpeed t \<le> speed (beforeVeto deltaTime inputEnabled t) \<and>
         speed (beforeVeto deltaTime inputEnabled t) \<le> maxSpeed t * 0.3"
    unfolding beforeVeto_speed m .
  from speedUpdate_range[OF assms, of ek dt] b show ?thesis by blast
qed

lemma ex_reversing_accelerate: "accelerate ex_keys_s False 10 ex_truck_reversing = 150"
  by (simp add: accelerate_def ex_keys_s_def no_keys_def gearAccel_def js_nth_def or_default_def
      new_truck_sel ex_truck_reversing_def)

text \<open>Reversing at 30 with the reverse key held for a long step: the clamp gives exactly 33.\<close>

theorem speed_in_range_witness:
  "0 \<le> maxSpeed ex_truck_reversing \<and>
   speed (speedUpdate ex_keys_s 10 ex_truck_reversing) = 33 \<and>
   speed (speedUpdate ex_keys_s 10 ex_truck_reversing) \<le> maxSpeed ex_truck_reversing * 0.3"
proof -
  have s: "maxSpeed ex_truck_reversing = 110" "autoBrakeTimer ex_truck_reversing = 0"
    by (simp_all add: new_truck_sel ex_truck_reversing_def)
  have h: "0 \<le> maxSpeed ex_truck_reversing" by (simp add: s)
  have "clampSpeed ex_truck_reversing (accelerate ex_keys_s False 10 ex_truck_reversing) = 33"
    by (simp only: ex_reversing_accelerate) (simp add: clampSpeed_def s)
  then have v: "speed (speedUpdate ex_keys_s 10 ex_truck_reversing) = 33"
    by (simp add: speedUpdate_speed s)
  from speed_in_range[OF h, of ex_keys_s 10 0 True] h v show ?thesis by simp
qed

text \<open>
  C10. When the auto-brake timer is 0 (after the countdown) and the clamped speed is below
  0.2 in absolute value, the speed-update step stores exactly 0; so with the timer at 0 the
  step never ends with \<open>0 < |speed| < 0.2\<close>. Nothing in the condition asks that auto-brake
  was ever engaged.
\<close>

theorem snap_to_zero:
  assumes "autoBrakeTimer t = 0"
  shows "(\<bar>clampSpeed t (accelerate ek False dt t)\<bar> < 0.2 \<longrightarrow> speed (speedUpdate ek dt t) = 0) \<and>
         \<not> (0 < \<bar>speed (speedUpdate ek dt t)\<bar> \<and> \<bar>speed (speedUpdate ek dt t)\<bar> < 0.2)"
  using assms by (auto simp: speedUpdate_speed Let_def)

lemma ex_start_accelerate: "accelerate ex_keys_w False 0.01 (new_truck None) = - 0.12"
  by (simp add: accelerate_def ex_keys_w_def no_keys_def gearAccel_def js_nth_def or_default_def
      new_truck_sel)

text \<open>
  A truck that never braked, forward key held, a 10 ms frame: the 0.12 mph gained is wiped.
\<close>

theorem snap_to_zero_witness:
  "autoBrakeTimer (new_truck None) = 0 \<and>
   \<bar>clampSpeed (new_truck None) (accelerate ex_keys_w False 0.01 (new_truck None))\<bar> < 0.2 \<and>
   speed (speedUpdate ex_keys_w 0.01 (new_truck None)) = 0"
proof -
  have h: "autoBrakeTimer (new_truck None) = 0" by (simp add: new_truck_sel)
  have c: "\<bar>clampSpeed (new_truck None) (accelerate ex_keys_w False 0.01 (new_truck None))\<bar> < 0.2"
    by (simp only: ex_start_accelerate) (simp add: clampSpeed_def new_truck_sel)
  from snap_to_zero[OF h, of ex_keys_w "0.01"] h c show ?thesis by blast
qed

section \<open>Automatic gearing\<close>

lemma int_1_5: "{1..5::int} = {1, 2, 3, 4, 5}"
  by auto

lemma gear_loop_highest:
  assumes "\<exists>g\<in>{1..5}. gear_met t g"
  shows "gear_loop t [1, 2, 3, 4, 5] 1 \<in> {g \<in> {1..5}. gear_met t g} \<and>
         (\<forall>g\<in>{g \<in> {1..5}. gear_met t g}. g \<le> gear_loop t [1, 2, 3, 4, 5] 1)"
  using assms unfolding int_1_5 by auto

lemma threshold_up:
  "threshold_met [0, 25, 50, 75, 95, 110] g a \<longleftrightarrow>
     (g = 0 \<and> a \<ge> 0) \<or> (g = 1 \<and> a \<ge> 25) \<or> (g = 2 \<and> a \<ge> 50) \<or> (g = 3 \<and> a \<ge> 75) \<or>
     (g = 4 \<and> a \<ge> 95) \<or> (g = 5 \<and> a \<ge> 110)"
proof -
  have "g < 0 \<or> g = 0 \<or> g = 1 \<or> g = 2 \<or> g = 3 \<or> g = 4 \<or> g = 5 \<or> g > 5" by arith
  then show ?thesis
    by (elim disjE) (simp_all add: threshold_met_def js_nth_def)
qed

lemma threshold_down:
  "threshold_met [0, 20, 45, 70, 90, 105] g a \<longleftrightarrow>
     (g = 0 \<and> a \<ge> 0) \<or> (g = 1 \<and> a \<ge> 20) \<or> (g = 2 \<and> a \<ge> 45) \<or> (g = 3 \<and> a \<ge> 70) \<or>
     (g = 4 \<and> a \<ge> 90) \<or> (g = 5 \<and> a \<ge> 105)"
proof -
  have "g < 0 \<or> g = 0 \<or> g = 1 \<or> g = 2 \<or> g = 3 \<or> g = 4 \<or> g = 5 \<or> g > 5" by arith
  then show ?thesis
    by (elim disjE) (simp_all add: threshold_met_def js_nth_def)
qed

lemma updateGear_gear:
  "currentGear (updateGear t) =
     (if speed t > 0.5 then - 1
      else if speed t < - 0.5 then gear_loop t [1, 2, 3, 4, 5] 1
      else 0)"
  by (simp add: updateGear_def Let_def)

lemma gear_loop_Max:
  assumes "\<exists>g\<in>{1..5}. gear_met t g"
  shows "gear_loop t [1, 2, 3, 4, 5] 1 = Max {g \<in> {1..5}. gear_met t g}"
proof -
  have f: "finite {g \<in> {1..5::int}. gear_met t g}"
    by (rule finite_subset[of _ "{1..5}"]) auto
  from gear_loop_highest[OF assms] show ?thesis
    by (intro Max_eqI[symmetric] f) auto
qed

lemma gear_loop_none:
  assumes "\<not> (\<exists>g\<in>{1..5}. gear_met t g)"
  shows "gear_loop t [1, 2, 3, 4, 5] 1 = 1"
  using assms unfolding int_1_5 by simp

lemma gear_stable:
  assumes up: "gearSpeeds t = [0, 25, 50, 75, 95, 110]"
    and down: "gearDownSpeeds t = [0, 20, 45, 70, 90, 105]"
    and g: "currentGear t \<in> {1..5}"
    and lo: "threshold_met (gearDownSpeeds t) (currentGear t) \<bar>speed t\<bar>"
    and hi: "\<not> threshold_met (gearSpeeds t) (currentGear t + 1) \<bar>speed t\<bar>"
  shows "gear_loop t [1, 2, 3, 4, 5] 1 = currentGear t"
proof -
  from g have "currentGear t = 1 \<or> currentGear t = 2 \<or> currentGear t = 3 \<or> currentGear t = 4 \<or>
      currentGear t = 5"
    by auto
  then show ?thesis
    using lo hi unfolding up down
    by (elim disjE) (simp_all add: gear_met_def up down threshold_up threshold_down)
qed

text \<open>
  C7, as amended. The gear \<open>updateGear\<close> stores depends only on the previous gear, the speed
  and the two tables: it is -1 when \<open>speed > 0.5\<close>, 0 when \<open>|speed| \<le> 0.5\<close>, and otherwise
  the highest gear of 1..5 whose threshold (downshift table for gears up to the current
  one, upshift table above it) is met, or gear 1 when no threshold is met. Hysteresis, with
  the tables of the constructor: a forward gear \<open>g\<close> of 1..5 is kept as long as the speed
  stays at or above the downshift threshold of \<open>g\<close> and below the upshift threshold of
  \<open>g + 1\<close>.
\<close>

theorem updateGear_assigns:
  "currentGear (updateGear t) =
     (if speed t > 0.5 then - 1
      else if \<bar>speed t\<bar> \<le> 0.5 then 0
      else if \<exists>g\<in>{1..5}. gear_met t g then Max {g \<in> {1..5}. gear_met t g}
      else 1) \<and>
   (gearSpeeds t = [0, 25, 50, 75, 95, 110] \<and> gearDownSpeeds t = [0, 20, 45, 70, 90, 105] \<and>
    speed t < - 0.5 \<and> currentGear t \<in> {1..5} \<and>
    threshold_met (gearDownSpeeds t) (currentGear t) \<bar>speed t\<bar> \<and>
    \<not> threshold_met (gearSpeeds t) (currentGear t + 1) \<bar>speed t\<bar>
    \<longrightarrow> currentGear (updateGear t) = currentGear t)"
proof (intro conjI impI)
  have c: "speed t > 0.5 \<or> (\<not> speed t > 0.5 \<and> \<bar>speed t\<bar> \<le> 0.5 \<and> \<not> speed t < - 0.5) \<or>
      (\<not> speed t > 0.5 \<and> \<not> \<bar>speed t\<bar> \<le> 0.5 \<and> speed t < - 0.5)" by arith
  show "currentGear (updateGear t) =
     (if speed t > 0.5 then - 1
      else if \<bar>speed t\<bar> \<le> 0.5 then 0
      else if \<exists>g\<in>{1..5}. gear_met t g then Max {g \<in> {1..5}. gear_met t g}
      else 1)"
  proof (cases "\<exists>g\<in>{1..5}. gear_met t g")
    case True
    from c show ?thesis
      by (elim disjE) (simp_all add: updateGear_gear gear_loop_Max[OF True] True del: gear_loop.simps)
  next
    case False
    from c show ?thesis
      by (elim disjE) (simp_all add: updateGear_gear gear_loop_none[OF False] False del: gear_loop.simps)
  qed
next
  assume a: "gearSpeeds t = [0, 25, 50, 75, 95, 110] \<and> gearDownSpeeds t = [0, 20, 45, 70, 90, 105] \<and>
    speed t < - 0.5 \<and> currentGear t \<in> {1..5} \<and>
    threshold_met (gearDownSpeeds t) (currentGear t) \<bar>speed t\<bar> \<and>
    \<not> threshold_met (gearSpeeds t) (currentGear t + 1) \<bar>speed t\<bar>"
  then have "gear_loop t [1, 2, 3, 4, 5] 1 = currentGear t"
    using gear_stable[of t] by blast
  with a show "currentGear (updateGear t) = currentGear t"
    by (simp add: updateGear_gear del: gear_loop.simps)
qed

lemma ex_gear2_sel:
  "speed ex_truck_gear2 = - 48" "currentGear ex_truck_gear2 = 2"
  "gearSpeeds ex_truck_gear2 = [0, 25, 50, 75, 95, 110]"
  "gearDownSpeeds ex_truck_gear2 = [0, 20, 45, 70, 90, 105]"
  by (simp_all add: ex_truck_gear2_def new_truck_sel)

lemma ex_slow_sel:
  "speed ex_truck_slow = - 10" "currentGear ex_truck_slow = 0"
  "gearSpeeds ex_truck_slow = [0, 25, 50, 75, 95, 110]"
  "gearDownSpeeds ex_truck_slow = [0, 20, 45, 70, 90, 105]"
  by (simp_all add: ex_truck_slow_def new_truck_sel)

text \<open>In second gear at 48 mph, between the thresholds 45 and 75: the gear stays 2.\<close>

theorem updateGear_assigns_witness:
  "speed ex_truck_gear2 < - 0.5 \<and> currentGear ex_truck_gear2 = 2 \<and>
   threshold_met (gearDownSpeeds ex_truck_gear2) 2 \<bar>speed ex_truck_gear2\<bar> \<and>
   \<not> threshold_met (gearSpeeds ex_truck_gear2) 3 \<bar>speed ex_truck_gear2\<bar> \<and>
   (\<exists>g\<in>{1..5}. gear_met ex_truck_gear2 g) \<and>
   currentGear (updateGear ex_truck_gear2) = 2 \<and>
   Max {g \<in> {1..5}. gear_met ex_truck_gear2 g} = 2"
proof -
  have h: "gearSpeeds ex_truck_gear2 = [0, 25, 50, 75, 95, 110] \<and>
    gearDownSpeeds ex_truck_gear2 = [0, 20, 45, 70, 90, 105] \<and>
    speed ex_truck_gear2 < - 0.5 \<and> currentGear ex_truck_gear2 \<in> {1..5} \<and>
    threshold_met (gearDownSpeeds ex_truck_gear2) (currentGear ex_truck_gear2) \<bar>speed ex_truck_gear2\<bar> \<and>
    \<not> threshold_met (gearSpeeds ex_truck_gear2) (currentGear ex_truck_gear2 + 1) \<bar>speed ex_truck_gear2\<bar>"
    by (simp add: ex_gear2_sel threshold_up threshold_down)
  have m: "gear_met ex_truck_gear2 2"
    by (simp add: gear_met_def ex_gear2_sel threshold_down)
  then have e: "\<exists>g\<in>{1..5}. gear_met ex_truck_gear2 g" by auto
  have s: "\<not> speed ex_truck_gear2 > 0.5" "\<not> \<bar>speed ex_truck_gear2\<bar> \<le> 0.5"
    by (simp_all add: ex_gear2_sel)
  from updateGear_assigns[of ex_truck_gear2] h
  have "currentGear (updateGear ex_truck_gear2) = currentGear ex_truck_gear2"
    by blast
  then have g2: "currentGear (updateGear ex_truck_gear2) = 2"
    by (simp only: ex_gear2_sel(2))
  from updateGear_assigns[of ex_truck_gear2] e s
  have "currentGear (updateGear ex_truck_gear2) = Max {g \<in> {1..5}. gear_met ex_truck_gear2 g}"
    by presburger
  with g2 h e show ?thesis by (simp add: ex_gear2_sel)
qed

text \<open>
  C7 as stated fails: from neutral at 10 mph forward the gear becomes 1, and no threshold
  of the gears 1..5 is met (the upshift threshold of gear 1 is 25).
\<close>

theorem updateGear_default_counterexample:
  "speed ex_truck_slow < - 0.5 \<and> currentGear (updateGear ex_truck_slow) = 1 \<and>
   \<not> gear_met ex_truck_slow 1 \<and> \<not> gear_met ex_truck_slow 2 \<and> \<not> gear_met ex_truck_slow 3 \<and>
   \<not> gear_met ex_truck_slow 4 \<and> \<not> gear_met ex_truck_slow 5"
proof -
  have m: "\<not> gear_met ex_truck_slow 1" "\<not> gear_met ex_truck_slow 2" "\<not> gear_met ex_truck_slow 3"
     "\<not> gear_met ex_truck_slow 4" "\<not> gear_met ex_truck_slow 5"
    by (simp_all add: gear_met_def ex_slow_sel threshold_up)
  then have "gear_loop ex_truck_slow [1, 2, 3, 4, 5] 1 = 1" by simp
  then have "currentGear (updateGear ex_truck_slow) = 1"
    by (simp add: updateGear_gear ex_slow_sel del: gear_loop.simps)
  with m show ?thesis by (simp add: ex_slow_sel)
qed

section \<open>Collision broker\<close>

lemma new_truck_pose:
  "position_x (new_truck sm) = 0" "position_z (new_truck sm) = 0" "rotation (new_truck sm) = 0"
  "sceneManager (new_truck sm) = sm"
  by (simp_all add: new_truck_def)

lemma checkCollision_Some:
  assumes "sceneManager t = Some sm"
  shows "checkCollision t newX newZ =
     (if snd (collisionCounts sm t newX newZ) > 0
      then fst (collisionCounts sm t newX newZ) \<ge> snd (collisionCounts sm t newX newZ)
      else fst (collisionCounts sm t newX newZ) > 0)"
  using assms by (simp add: checkCollision_def Let_def)

text \<open>
  C6, as amended. When the current pose already has at least one perimeter point inside an
  enclosure wall or a house (\<open>currentCollisions > 0\<close>), \<open>checkCollision\<close> blocks the
  candidate move exactly when \<open>newCollisions \<ge> currentCollisions\<close>: a move is approved
  if and only if it strictly lowers the count; a move that keeps the count is rejected.
\<close>

theorem checkCollision_escape:
  assumes "sceneManager t = Some sm" and "snd (collisionCounts sm t newX newZ) > 0"
  shows "checkCollision t newX newZ \<longleftrightarrow>
         \<not> fst (collisionCounts sm t newX newZ) < snd (collisionCounts sm t newX newZ)"
  using assms by (simp add: checkCollision_Some not_less)

lemma ex_counts_thin:
  "collisionCounts (ex_sm_walls [ex_thin_wall]) (new_truck (Some (ex_sm_walls [ex_thin_wall]))) 0 0.5 = (2, 2)"
  by (simp add: collisionCounts_def countWallCollisions_def ex_sm_walls_def new_truck_pose
      count_points_def checkPoints_def point_world_def in_wall_def ex_thin_wall_def
      truckHalfWidth_def truckFront_def truckBack_def Let_def)

lemma ex_counts_front:
  "collisionCounts (ex_sm_walls [ex_front_wall]) (new_truck (Some (ex_sm_walls [ex_front_wall]))) 0 1 = (0, 9)"
  by (simp add: collisionCounts_def countWallCollisions_def ex_sm_walls_def new_truck_pose
      count_points_def checkPoints_def point_world_def in_wall_def ex_front_wall_def
      truckHalfWidth_def truckFront_def truckBack_def Let_def)

text \<open>
  The cab's nine front points are inside a wall; backing up by one metre frees them all
  and is approved.
\<close>

theorem checkCollision_escape_witness:
  "sceneManager ex_truck_front = Some (ex_sm_walls [ex_front_wall]) \<and>
   snd (collisionCounts (ex_sm_walls [ex_front_wall]) ex_truck_front 0 1) = 9 \<and>
   fst (collisionCounts (ex_sm_walls [ex_front_wall]) ex_truck_front 0 1) = 0 \<and>
   \<not> checkCollision ex_truck_front 0 1"
proof -
  have s: "sceneManager ex_truck_front = Some (ex_sm_walls [ex_front_wall])"
    by (simp add: ex_truck_front_def new_truck_pose)
  have c: "collisionCounts (ex_sm_walls [ex_front_wall]) ex_truck_front 0 1 = (0, 9)"
    unfolding ex_truck_front_def by (rule ex_counts_front)
  have p: "snd (collisionCounts (ex_sm_walls [ex_front_wall]) ex_truck_front 0 1) > 0"
    by (simp add: c)
  from checkCollision_escape[OF s p] s show ?thesis by (simp add: c)
qed

text \<open>
  C6 as stated fails: the truck straddles a thin wall (two perimeter points inside) and
  slides half a metre along it; the count stays 2, the move does not increase it, and it
  is rejected.
\<close>

theorem checkCollision_tie_counterexample:
  "snd (collisionCounts (ex_sm_walls [ex_thin_wall]) ex_truck_thin 0 0.5) > 0 \<and>
   fst (collisionCounts (ex_sm_walls [ex_thin_wall]) ex_truck_thin 0 0.5) \<le>
     snd (collisionCounts (ex_sm_walls [ex_thin_wall]) ex_truck_thin 0 0.5) \<and>
   checkCollision ex_truck_thin 0 0.5"
proof -
  have s: "sceneManager ex_truck_thin = Some (ex_sm_walls [ex_thin_wall])"
    by (simp add: ex_truck_thin_def new_truck_pose)
  have c: "collisionCounts (ex_sm_walls [ex_thin_wall]) ex_truck_thin 0 0.5 = (2, 2)"
    unfolding ex_truck_thin_def by (rule ex_counts_thin)
  have k: "checkCollision ex_truck_thin 0 0.5"
    unfolding checkCollision_Some[OF s] c by simp
  show ?thesis unfolding c using k by simp
qed

lemma pose_restore: "(r::pose)\<lparr>pose_x := a, pose_z := b, pose_rotY := c\<rparr>\<lparr>pose_x := pose_x r, pose_z := pose_z r, pose_rotY := pose_rotY r\<rparr> = r"
  by simp

lemma checkMeshCollision_root:
  "root_node (snd (checkMeshCollision isect frameId posX posZ rotY t)) = root_node t"
  by (simp add: checkMeshCollision_def Let_def split: option.splits)

lemma checkMeshCollision_vehicle:
  "position_x (snd (checkMeshCollision isect frameId posX posZ rotY t)) = position_x t"
  "position_z (snd (checkMeshCollision isect frameId posX posZ rotY t)) = position_z t"
  "rotation (snd (checkMeshCollision isect frameId posX posZ rotY t)) = rotation t"
  "turnRate (snd (checkMeshCollision isect frameId posX posZ rotY t)) = turnRate t"
  "driftAngle (snd (checkMeshCollision isect frameId posX posZ rotY t)) = driftAngle t"
  "speed (snd (checkMeshCollision isect frameId posX posZ rotY t)) = speed t"
  "isDrifting (snd (checkMeshCollision isect frameId posX posZ rotY t)) = isDrifting t"
  "loadedItems (snd (checkMeshCollision isect frameId posX posZ rotY t)) = loadedItems t"
  by (simp_all add: checkMeshCollision_def Let_def split: option.splits)

text \<open>The candidate pose the tests see.\<close>

lemma checkMeshCollision_full:
  assumes "sceneManager t = Some sm" "cache_hit (collisionCache t) frameId posX posZ rotY = None"
  shows "fst (checkMeshCollision isect frameId posX posZ rotY t) =
         mesh_tests isect sm ((root_node t)\<lparr>pose_x := posX, pose_z := posZ, pose_rotY := rotY\<rparr>)
           (case collisionMeshes t of None \<Rightarrow> truck_meshes t | Some ms \<Rightarrow> ms)
           (or_default (collisionRadiusXZ t) 5) posX posZ"
  using assms by (simp add: checkMeshCollision_def Let_def split: option.splits)

text \<open>
  C9. \<open>checkMeshCollision\<close> leaves the root node's \<open>x\<close>, \<open>z\<close> and \<open>rotation.y\<close> as
  they were, with or without a scene manager, on a cache hit and after the full test,
  whether or not a collision was found; it never touches the vehicle's position and
  heading. On the full-test path the intersection tests run while the root node has the
  candidate pose; on a cache hit nothing at all changes.
\<close>

theorem checkMeshCollision_pure:
  "root_node (snd (checkMeshCollision isect frameId posX posZ rotY t)) = root_node t \<and>
   position_x (snd (checkMeshCollision isect frameId posX posZ rotY t)) = position_x t \<and>
   position_z (snd (checkMeshCollision isect frameId posX posZ rotY t)) = position_z t \<and>
   rotation (snd (checkMeshCollision isect frameId posX posZ rotY t)) = rotation t \<and>
   (sceneManager t = Some sm \<and> cache_hit (collisionCache t) frameId posX posZ rotY = None \<longrightarrow>
      fst (checkMeshCollision isect frameId posX posZ rotY t) =
         mesh_tests isect sm ((root_node t)\<lparr>pose_x := posX, pose_z := posZ, pose_rotY := rotY\<rparr>)
           (case collisionMeshes t of None \<Rightarrow> truck_meshes t | Some ms \<Rightarrow> ms)
           (or_default (collisionRadiusXZ t) 5) posX posZ) \<and>
   (sceneManager t = Some sm \<and> cache_hit (collisionCache t) frameId posX posZ rotY = Some r \<longrightarrow>
      checkMeshCollision isect frameId posX posZ rotY t = (r, t))"
  by (simp add: checkMeshCollision_root checkMeshCollision_vehicle checkMeshCollision_full)
     (simp add: checkMeshCollision_def)

lemma ex_turning_sel:
  "rotation ex_truck_turning = 0" "position_x ex_truck_turning = 0" "position_z ex_truck_turning = 0"
  "driftAngle ex_truck_turning = 0.1" "speed ex_truck_turning = - 50"
  "sceneManager ex_truck_turning = Some ex_sm_meshwall"
  "collisionCache ex_truck_turning = None"
  "truck_keys ex_truck_turning = ex_keys_wa"
  "autoBrakeTimer ex_truck_turning = 0"
  by (simp_all add: ex_truck_turning_def new_truck_def)

section \<open>Steering and the rotation veto\<close>

lemma beforeTurning_same:
  "rotation (beforeTurning deltaTime inputEnabled t0) = rotation t0"
  "position_x (beforeTurning deltaTime inputEnabled t0) = position_x t0"
  "position_z (beforeTurning deltaTime inputEnabled t0) = position_z t0"
  "driftAngle (beforeTurning deltaTime inputEnabled t0) = driftAngle t0"
  "turnInput (beforeTurning deltaTime inputEnabled t0) = turnInput t0"
  "turnSpeed (beforeTurning deltaTime inputEnabled t0) = turnSpeed t0"
  "rearAxleOffset (beforeTurning deltaTime inputEnabled t0) = rearAxleOffset t0"
  "maxSpeed (beforeTurning deltaTime inputEnabled t0) = maxSpeed t0"
  "truck_keys (beforeTurning deltaTime inputEnabled t0) = truck_keys t0"
  "sceneManager (beforeTurning deltaTime inputEnabled t0) = sceneManager t0"
  "collisionCache (beforeTurning deltaTime inputEnabled t0) = collisionCache t0"
  "collisionMeshes (beforeTurning deltaTime inputEnabled t0) = collisionMeshes t0"
  "collisionRadiusXZ (beforeTurning deltaTime inputEnabled t0) = collisionRadiusXZ t0"
  "truck_meshes (beforeTurning deltaTime inputEnabled t0) = truck_meshes t0"
  "root_node (beforeTurning deltaTime inputEnabled t0) = root_node t0"
  "autoBrakeTimer (beforeTurning deltaTime inputEnabled t0) =
     autoBrakeTimer (autoBrakeCountdown (min deltaTime 0.05) t0)"
  by (simp_all add: beforeTurning_def speedUpdate_def updateGear_def autoBrakeCountdown_def Let_def)

lemma beforeTurning_speed:
  "speed (beforeTurning deltaTime inputEnabled t0) =
   speed (speedUpdate (effectiveKeys inputEnabled t0) (min deltaTime 0.05)
            ((autoBrakeCountdown (min deltaTime 0.05) t0)\<lparr>prevSpeed := speed t0\<rparr>))"
  by (simp add: beforeTurning_def Let_def updateGear_speed effectiveKeys_def autoBrakeCountdown_def)

lemma turningUpdate_same:
  "sceneManager (turningUpdate ek ab dt t) = sceneManager t"
  "collisionCache (turningUpdate ek ab dt t) = collisionCache t"
  "collisionMeshes (turningUpdate ek ab dt t) = collisionMeshes t"
  "collisionRadiusXZ (turningUpdate ek ab dt t) = collisionRadiusXZ t"
  "truck_meshes (turningUpdate ek ab dt t) = truck_meshes t"
  "root_node (turningUpdate ek ab dt t) = root_node t"
  by (simp_all add: turningUpdate_def Let_def)

lemma turningUpdate_rotation:
  "rotation (turningUpdate ek ab dt t) =
     (if \<bar>speed t\<bar> > 0.1
      then rotation t + deltaRotation ek ab dt (smoothedTurnInput ek dt t)
             (t\<lparr>turnRate := 0, turnInput := smoothedTurnInput ek dt t\<rparr>)
      else rotation t)"
  by (simp add: turningUpdate_def Let_def)

lemma turningUpdate_driftAngle:
  "driftAngle (turningUpdate ek ab dt t) =
     (if \<bar>speed t\<bar> > 0.1
      then driftBuild ek ab dt (smoothedTurnInput ek dt t)
             (t\<lparr>turnRate := 0, turnInput := smoothedTurnInput ek dt t\<rparr>)
      else driftAngle t)"
  by (simp add: turningUpdate_def Let_def)

lemma canDrift_ignores:
  "canDrift ek ab (t\<lparr>turnRate := a, turnInput := b\<rparr>) = canDrift ek ab t"
  by (simp add: canDrift_def Let_def)

lemma steer_ignores:
  "deltaRotation ek ab dt ti (t\<lparr>turnRate := a, turnInput := b\<rparr>) = deltaRotation ek ab dt ti t"
  "driftBuild ek ab dt ti (t\<lparr>turnRate := a, turnInput := b\<rparr>) = driftBuild ek ab dt ti t"
  by (simp_all add: deltaRotation_def driftBuild_def canDrift_ignores Let_def)

lemma ex_dt_min: "min ex_dt 0.05 = ex_dt"
  by (simp add: ex_dt_def)

lemma ex_bt:
  "speed (beforeTurning ex_dt True ex_truck_turning) = - 50.6"
  by (simp add: beforeTurning_speed speedUpdate_speed effectiveKeys_def autoBrakeCountdown_def
      accelerate_def clampSpeed_def gearAccel_def js_nth_def or_default_def no_keys_def
      ex_truck_turning_def new_truck_def ex_dt_def ex_keys_wa_def)

lemma ex_bt_sel:
  "rotation (beforeTurning ex_dt True ex_truck_turning) = 0"
  "driftAngle (beforeTurning ex_dt True ex_truck_turning) = 0.1"
  "turnInput (beforeTurning ex_dt True ex_truck_turning) = 0"
  "turnSpeed (beforeTurning ex_dt True ex_truck_turning) = 1.9"
  "maxSpeed (beforeTurning ex_dt True ex_truck_turning) = 110"
  "autoBrakeTimer (beforeTurning ex_dt True ex_truck_turning) = 0"
  "effectiveKeys True (beforeTurning ex_dt True ex_truck_turning) = ex_keys_wa"
  "sceneManager (beforeTurning ex_dt True ex_truck_turning) = Some ex_sm_meshwall"
  "collisionCache (beforeTurning ex_dt True ex_truck_turning) = None"
  by (simp_all add: beforeTurning_same effectiveKeys_def autoBrakeCountdown_def ex_truck_turning_def new_truck_def)

lemma ex_ti: "smoothedTurnInput ex_keys_wa ex_dt (beforeTurning ex_dt True ex_truck_turning) = 0.6"
  by (simp add: smoothedTurnInput_def rawTurnInput_def no_keys_def ex_bt_sel ex_keys_wa_def)
     (simp add: ex_dt_def)

lemma ex_nodrift: "\<not> canDrift ex_keys_wa False (beforeTurning ex_dt True ex_truck_turning)"
  by (simp add: canDrift_def no_keys_def ex_keys_wa_def)

lemma ex_dr: "deltaRotation ex_keys_wa False ex_dt (smoothedTurnInput ex_keys_wa ex_dt (beforeTurning ex_dt True ex_truck_turning))
     (beforeTurning ex_dt True ex_truck_turning) = - 0.057"
  by (simp add: deltaRotation_def ex_nodrift ex_bt ex_bt_sel ex_ti) (simp add: ex_dt_def)

lemma ex_db: "driftBuild ex_keys_wa False ex_dt (smoothedTurnInput ex_keys_wa ex_dt (beforeTurning ex_dt True ex_truck_turning))
     (beforeTurning ex_dt True ex_truck_turning) = 0.1"
  by (simp add: driftBuild_def ex_nodrift ex_bt_sel)

lemma beforeVeto_unfold:
  "beforeVeto deltaTime inputEnabled t0 =
     turningUpdate (effectiveKeys inputEnabled (beforeTurning deltaTime inputEnabled t0))
       (autoBrakeTimer (beforeTurning deltaTime inputEnabled t0) > 0) (min deltaTime 0.05)
       (beforeTurning deltaTime inputEnabled t0)"
  by (simp add: beforeVeto_def Let_def)

lemma ex_bv_unfold: "beforeVeto ex_dt True ex_truck_turning =
     turningUpdate ex_keys_wa False ex_dt (beforeTurning ex_dt True ex_truck_turning)"
  unfolding beforeVeto_unfold ex_dt_min ex_bt_sel by simp

lemma ex_bv:
  "rotation (beforeVeto ex_dt True ex_truck_turning) = - 0.057"
  "driftAngle (beforeVeto ex_dt True ex_truck_turning) = 0.1"
  "sceneManager (beforeVeto ex_dt True ex_truck_turning) = Some ex_sm_meshwall"
  "collisionCache (beforeVeto ex_dt True ex_truck_turning) = None"
proof -
  show "rotation (beforeVeto ex_dt True ex_truck_turning) = - 0.057"
    unfolding ex_bv_unfold turningUpdate_rotation steer_ignores ex_dr by (simp add: ex_bt ex_bt_sel)
  show "driftAngle (beforeVeto ex_dt True ex_truck_turning) = 0.1"
    unfolding ex_bv_unfold turningUpdate_driftAngle steer_ignores ex_db by (simp add: ex_bt ex_bt_sel)
  show "sceneManager (beforeVeto ex_dt True ex_truck_turning) = Some ex_sm_meshwall"
    unfolding ex_bv_unfold turningUpdate_same by (simp add: ex_bt_sel)
  show "collisionCache (beforeVeto ex_dt True ex_truck_turning) = None"
    unfolding ex_bv_unfold turningUpdate_same by (simp add: ex_bt_sel)
qed

lemma rotationVeto_collides:
  assumes "rotation t \<noteq> prevRotation"
    and "fst (checkMeshCollision isect frameId (position_x t) (position_z t) (rotation t) t)"
  shows "rotation (rotationVeto isect frameId prevRotation prevPosX prevPosZ t) = prevRotation"
    "position_x (rotationVeto isect frameId prevRotation prevPosX prevPosZ t) = prevPosX"
    "position_z (rotationVeto isect frameId prevRotation prevPosX prevPosZ t) = prevPosZ"
    "turnRate (rotationVeto isect frameId prevRotation prevPosX prevPosZ t) = 0"
    "driftAngle (rotationVeto isect frameId prevRotation prevPosX prevPosZ t) = 0"
  using assms by (simp_all add: rotationVeto_def Let_def)

lemma driftDecay_fields:
  "rotation (driftDecay t) = rotation t" "turnRate (driftDecay t) = turnRate t"
  "driftAngle t = 0 \<Longrightarrow> driftAngle (driftDecay t) = 0"
  by (simp_all add: driftDecay_def Let_def)

lemma translationUpdate_fields:
  "rotation (translationUpdate isect frameId dt t) = rotation t"
  "turnRate (translationUpdate isect frameId dt t) = turnRate t"
  "driftAngle (translationUpdate isect frameId dt t) = driftAngle t"
  by (simp_all add: translationUpdate_def Let_def checkMeshCollision_vehicle)

lemma applyTransform_fields:
  "rotation (applyTransform t) = rotation t" "turnRate (applyTransform t) = turnRate t"
  "driftAngle (applyTransform t) = driftAngle t"
  by (simp_all add: applyTransform_def)

lemma updateLoadedItems_fields:
  "rotation (updateLoadedItems nowMs dt mx mz t) = rotation t"
  "turnRate (updateLoadedItems nowMs dt mx mz t) = turnRate t"
  "driftAngle (updateLoadedItems nowMs dt mx mz t) = driftAngle t"
  by (simp_all add: updateLoadedItems_def)

lemma updateDriving_fields:
  "rotation (updateDriving isect frameId nowMs deltaTime inputEnabled t0) =
     rotation (rotationVeto isect frameId (rotation t0) (position_x t0) (position_z t0)
                 (beforeVeto deltaTime inputEnabled t0))"
  "turnRate (updateDriving isect frameId nowMs deltaTime inputEnabled t0) =
     turnRate (rotationVeto isect frameId (rotation t0) (position_x t0) (position_z t0)
                 (beforeVeto deltaTime inputEnabled t0))"
  "driftAngle (updateDriving isect frameId nowMs deltaTime inputEnabled t0) =
     driftAngle (driftDecay (rotationVeto isect frameId (rotation t0) (position_x t0) (position_z t0)
                 (beforeVeto deltaTime inputEnabled t0)))"
  by (simp_all add: updateDriving_def Let_def updateLoadedItems_fields applyTransform_fields
      translationUpdate_fields driftDecay_fields)

text \<open>
  C5, as amended. If the heading changed in the frame and the collision check at the
  rotated pose returns true, then the heading and the position (x and z) are set back to
  the values they had when the frame began, and the turn rate and the drift angle are set
  to 0 (they are not restored to earlier values). The heading is still the old one when
  \<open>updateDriving\<close> returns, and turn rate and drift angle are still 0.
\<close>

theorem rotation_veto_reverts:
  assumes "rotation (beforeVeto deltaTime inputEnabled t0) \<noteq> rotation t0"
    and "fst (checkMeshCollision isect frameId (position_x (beforeVeto deltaTime inputEnabled t0))
           (position_z (beforeVeto deltaTime inputEnabled t0))
           (rotation (beforeVeto deltaTime inputEnabled t0)) (beforeVeto deltaTime inputEnabled t0))"
  shows "rotation (rotationVeto isect frameId (rotation t0) (position_x t0) (position_z t0)
            (beforeVeto deltaTime inputEnabled t0)) = rotation t0 \<and>
         position_x (rotationVeto isect frameId (rotation t0) (position_x t0) (position_z t0)
            (beforeVeto deltaTime inputEnabled t0)) = position_x t0 \<and>
         position_z (rotationVeto isect frameId (rotation t0) (position_x t0) (position_z t0)
            (beforeVeto deltaTime inputEnabled t0)) = position_z t0 \<and>
         turnRate (rotationVeto isect frameId (rotation t0) (position_x t0) (position_z t0)
            (beforeVeto deltaTime inputEnabled t0)) = 0 \<and>
         driftAngle (rotationVeto isect frameId (rotation t0) (position_x t0) (position_z t0)
            (beforeVeto deltaTime inputEnabled t0)) = 0 \<and>
         rotation (updateDriving isect frameId nowMs deltaTime inputEnabled t0) = rotation t0 \<and>
         turnRate (updateDriving isect frameId nowMs deltaTime inputEnabled t0) = 0 \<and>
         driftAngle (updateDriving isect frameId nowMs deltaTime inputEnabled t0) = 0"
  using rotationVeto_collides[OF assms]
  by (simp add: updateDriving_fields driftDecay_fields)

lemma ex_bv_meshes:
  "(case collisionMeshes (beforeVeto ex_dt True ex_truck_turning) of
      None \<Rightarrow> truck_meshes (beforeVeto ex_dt True ex_truck_turning) | Some ms \<Rightarrow> ms) =
   [Floor, LeftWall, RightWall, FrontWall, Cab]"
  unfolding ex_bv_unfold turningUpdate_same beforeTurning_same
  by (simp add: ex_truck_turning_def new_truck_def)

lemma ex_wall_always_hit:
  "mesh_tests isect_all ex_sm_meshwall rt [Floor, LeftWall, RightWall, FrontWall, Cab] rad x z"
  by (simp add: mesh_tests_def ex_sm_meshwall_def wall_hit_def isect_all_def Let_def)

lemma ex_collides:
  "fst (checkMeshCollision isect_all 1 (position_x (beforeVeto ex_dt True ex_truck_turning))
           (position_z (beforeVeto ex_dt True ex_truck_turning))
           (rotation (beforeVeto ex_dt True ex_truck_turning)) (beforeVeto ex_dt True ex_truck_turning))"
proof -
  have c: "cache_hit (collisionCache (beforeVeto ex_dt True ex_truck_turning)) 1 x z r = None" for x z r
    by (simp add: ex_bv(4) cache_hit_def)
  show ?thesis
    unfolding checkMeshCollision_full[OF ex_bv(3) c] ex_bv_meshes by (rule ex_wall_always_hit)
qed

lemma ex_rot_changed: "rotation (beforeVeto ex_dt True ex_truck_turning) \<noteq> rotation ex_truck_turning"
  by (simp add: ex_bv ex_turning_sel)

text \<open>
  Forward at 50 mph with the left key held, next to a destination wall that the truck
  meshes intersect at every pose.
\<close>

theorem rotation_veto_reverts_witness:
  "rotation (beforeVeto ex_dt True ex_truck_turning) \<noteq> rotation ex_truck_turning \<and>
   fst (checkMeshCollision isect_all 1 (position_x (beforeVeto ex_dt True ex_truck_turning))
           (position_z (beforeVeto ex_dt True ex_truck_turning))
           (rotation (beforeVeto ex_dt True ex_truck_turning)) (beforeVeto ex_dt True ex_truck_turning)) \<and>
   rotation (updateDriving isect_all 1 0 ex_dt True ex_truck_turning) = 0 \<and>
   driftAngle (updateDriving isect_all 1 0 ex_dt True ex_truck_turning) = 0"
  using rotation_veto_reverts[OF ex_rot_changed ex_collides, of 0] ex_rot_changed ex_collides
  by (simp add: ex_turning_sel)

text \<open>
  C5 as stated fails for the drift angle: it is 0.1 when the frame begins and still 0.1
  when the rotated pose is tested; the veto leaves it at 0.
\<close>

theorem driftAngle_not_restored_counterexample:
  "driftAngle ex_truck_turning = 0.1 \<and>
   driftAngle (beforeVeto ex_dt True ex_truck_turning) = 0.1 \<and>
   rotation (beforeVeto ex_dt True ex_truck_turning) \<noteq> rotation ex_truck_turning \<and>
   fst (checkMeshCollision isect_all 1 (position_x (beforeVeto ex_dt True ex_truck_turning))
           (position_z (beforeVeto ex_dt True ex_truck_turning))
           (rotation (beforeVeto ex_dt True ex_truck_turning)) (beforeVeto ex_dt True ex_truck_turning)) \<and>
   driftAngle (rotationVeto isect_all 1 (rotation ex_truck_turning) (position_x ex_truck_turning)
                 (position_z ex_truck_turning) (beforeVeto ex_dt True ex_truck_turning)) = 0"
  using rotationVeto_collides(5)[OF ex_rot_changed ex_collides] ex_rot_changed ex_collides
  by (simp add: ex_turning_sel ex_bv)

text \<open>A full test that finds a collision, and the cache entry it leaves.\<close>

theorem checkMeshCollision_pure_witness:
  "sceneManager ex_truck_parked = Some ex_sm_meshwall \<and>
   cache_hit (collisionCache ex_truck_parked) 1 3 4 2 = None \<and>
   fst (checkMeshCollision isect_all 1 3 4 2 ex_truck_parked) \<and>
   root_node (snd (checkMeshCollision isect_all 1 3 4 2 ex_truck_parked)) =
     \<lparr>pose_x = 0, pose_z = 0, pose_rotY = 0\<rparr> \<and>
   cache_hit (collisionCache (snd (checkMeshCollision isect_all 1 3 4 2 ex_truck_parked))) 1 3 4 2 = Some True"
proof -
  have s: "sceneManager ex_truck_parked = Some ex_sm_meshwall"
    "collisionCache ex_truck_parked = None" "root_node ex_truck_parked = \<lparr>pose_x = 0, pose_z = 0, pose_rotY = 0\<rparr>"
    "collisionMeshes ex_truck_parked = None" "truck_meshes ex_truck_parked = [Floor, LeftWall, RightWall, FrontWall, Cab]"
    by (simp_all add: ex_truck_parked_def new_truck_def)
  have c: "cache_hit (collisionCache ex_truck_parked) 1 3 4 2 = None"
    by (simp add: s cache_hit_def)
  have m: "mesh_tests isect_all ex_sm_meshwall ((root_node ex_truck_parked)\<lparr>pose_x := 3, pose_z := 4, pose_rotY := 2\<rparr>)
           (case collisionMeshes ex_truck_parked of None \<Rightarrow> truck_meshes ex_truck_parked | Some ms \<Rightarrow> ms)
           (or_default (collisionRadiusXZ ex_truck_parked) 5) 3 4"
    by (simp add: s ex_wall_always_hit)
  have k: "cache_hit (collisionCache (snd (checkMeshCollision isect_all 1 3 4 2 ex_truck_parked))) 1 3 4 2 = Some True"
    using m by (simp add: checkMeshCollision_def s c cache_hit_def Let_def)
  from checkMeshCollision_pure[of isect_all 1 3 4 2 ex_truck_parked ex_sm_meshwall] s c m k
  show ?thesis by simp
qed

section \<open>Items: which operation touches which field\<close>

lemma item_update_simps:
  "item_body (it\<lparr>item_id := v0\<rparr>) = item_body it"
  "item_body (it\<lparr>item_size := v1\<rparr>) = item_body it"
  "item_body (it\<lparr>isFallen := v2\<rparr>) = item_body it"
  "item_body (it\<lparr>isParented := v3\<rparr>) = item_body it"
  "item_body (it\<lparr>createPhysicsAt := v4\<rparr>) = item_body it"
  "item_body (it\<lparr>becomeDynamicAt := v5\<rparr>) = item_body it"
  "item_body (it\<lparr>dampingBoostUntil := v6\<rparr>) = item_body it"
  "item_body (it\<lparr>dampingBoosted := v7\<rparr>) = item_body it"
  "item_body (it\<lparr>lockLateralUntil := v8\<rparr>) = item_body it"
  "item_body (it\<lparr>baseLinearDamping := v9\<rparr>) = item_body it"
  "item_body (it\<lparr>baseAngularDamping := v10\<rparr>) = item_body it"
  "item_body (it\<lparr>localX := v11\<rparr>) = item_body it"
  "item_body (it\<lparr>localZ := v12\<rparr>) = item_body it"
  "item_body (it\<lparr>localY := v13\<rparr>) = item_body it"
  "item_body (it\<lparr>restoreMotionAt := v14\<rparr>) = item_body it"
  "item_body (it\<lparr>restoreMotionType := v15\<rparr>) = item_body it"
  "item_position (it\<lparr>item_id := v0\<rparr>) = item_position it"
  "item_position (it\<lparr>item_size := v1\<rparr>) = item_position it"
  "item_position (it\<lparr>isFallen := v2\<rparr>) = item_position it"
  "item_position (it\<lparr>isParented := v3\<rparr>) = item_position it"
  "item_position (it\<lparr>createPhysicsAt := v4\<rparr>) = item_position it"
  "item_position (it\<lparr>becomeDynamicAt := v5\<rparr>) = item_position it"
  "item_position (it\<lparr>dampingBoostUntil := v6\<rparr>) = item_position it"
  "item_position (it\<lparr>dampingBoosted := v7\<rparr>) = item_position it"
  "item_position (it\<lparr>lockLateralUntil := v8\<rparr>) = item_position it"
  "item_position (it\<lparr>baseLinearDamping := v9\<rparr>) = item_position it"
  "item_position (it\<lparr>baseAngularDamping := v10\<rparr>) = item_position it"
  "item_position (it\<lparr>localX := v11\<rparr>) = item_position it"
  "item_position (it\<lparr>localZ := v12\<rparr>) = item_position it"
  "item_position (it\<lparr>localY := v13\<rparr>) = item_position it"
  "item_position (it\<lparr>restoreMotionAt := v14\<rparr>) = item_position it"
  "item_position (it\<lparr>restoreMotionType := v15\<rparr>) = item_position it"
  "has_body (it\<lparr>item_id := v0\<rparr>) = has_body it"
  "has_body (it\<lparr>item_size := v1\<rparr>) = has_body it"
  "has_body (it\<lparr>isFallen := v2\<rparr>) = has_body it"
  "has_body (it\<lparr>isParented := v3\<rparr>) = has_body it"
  "has_body (it\<lparr>createPhysicsAt := v4\<rparr>) = has_body it"
  "has_body (it\<lparr>becomeDynamicAt := v5\<rparr>) = has_body it"
  "has_body (it\<lparr>dampingBoostUntil := v6\<rparr>) = has_body it"
  "has_body (it\<lparr>dampingBoosted := v7\<rparr>) = has_body it"
  "has_body (it\<lparr>lockLateralUntil := v8\<rparr>) = has_body it"
  "has_body (it\<lparr>baseLinearDamping := v9\<rparr>) = has_body it"
  "has_body (it\<lparr>baseAngularDamping := v10\<rparr>) = has_body it"
  "has_body (it\<lparr>localX := v11\<rparr>) = has_body it"
  "has_body (it\<lparr>localZ := v12\<rparr>) = has_body it"
  "has_body (it\<lparr>localY := v13\<rparr>) = has_body it"
  "has_body (it\<lparr>restoreMotionAt := v14\<rparr>) = has_body it"
  "has_body (it\<lparr>restoreMotionType := v15\<rparr>) = has_body it"
  "has_mesh (it\<lparr>item_id := v0\<rparr>) = has_mesh it"
  "has_mesh (it\<lparr>item_size := v1\<rparr>) = has_mesh it"
  "has_mesh (it\<lparr>isFallen := v2\<rparr>) = has_mesh it"
  "has_mesh (it\<lparr>isParented := v3\<rparr>) = has_mesh it"
  "has_mesh (it\<lparr>createPhysicsAt := v4\<rparr>) = has_mesh it"
  "has_mesh (it\<lparr>becomeDynamicAt := v5\<rparr>) = has_mesh it"
  "has_mesh (it\<lparr>dampingBoostUntil := v6\<rparr>) = has_mesh it"
  "has_mesh (it\<lparr>dampingBoosted := v7\<rparr>) = has_mesh it"
  "has_mesh (it\<lparr>lockLateralUntil := v8\<rparr>) = has_mesh it"
  "has_mesh (it\<lparr>baseLinearDamping := v9\<rparr>) = has_mesh it"
  "has_mesh (it\<lparr>baseAngularDamping := v10\<rparr>) = has_mesh it"
  "has_mesh (it\<lparr>localX := v11\<rparr>) = has_mesh it"
  "has_mesh (it\<lparr>localZ := v12\<rparr>) = has_mesh it"
  "has_mesh (it\<lparr>localY := v13\<rparr>) = has_mesh it"
  "has_mesh (it\<lparr>restoreMotionAt := v14\<rparr>) = has_mesh it"
  "has_mesh (it\<lparr>restoreMotionType := v15\<rparr>) = has_mesh it"
  by (simp_all add: item_body_def item_position_def has_body_def has_mesh_def)

lemma item_position_mesh:
  "item_mesh it = Some m \<Longrightarrow> item_position it = Some (position m)"
  "item_mesh it = Some m \<Longrightarrow> has_mesh it"
  "item_position it = Some p \<Longrightarrow> has_mesh it"
  "item_body it = Some b \<Longrightarrow> has_body it"
  "item_body it = Some b \<Longrightarrow> has_mesh it"
  by (auto simp add: item_position_def has_mesh_def has_body_def item_body_def split: option.splits)

lemma set_body_fields:
  "isFallen (set_body b it) = isFallen it"
  "createPhysicsAt (set_body b it) = createPhysicsAt it"
  "item_size (set_body b it) = item_size it"
  "restoreMotionAt (set_body b it) = restoreMotionAt it"
  "restoreMotionType (set_body b it) = restoreMotionType it"
  "becomeDynamicAt (set_body b it) = becomeDynamicAt it"
  "lockLateralUntil (set_body b it) = lockLateralUntil it"
  "localX (set_body b it) = localX it"
  "localZ (set_body b it) = localZ it"
  "isParented (set_body b it) = isParented it"
  "item_position (set_body b it) = item_position it"
  "has_mesh (set_body b it) = has_mesh it"
  "has_body (set_body b it) = has_body it"
  by (simp_all add: set_body_def item_position_def has_mesh_def has_body_def item_body_def
      split: option.splits)

lemma item_body_set_body:
  "item_body (set_body b it) = (if has_body it then Some b else None)"
  by (simp add: set_body_def item_body_def has_body_def split: option.splits)

lemma map_body_fields:
  "isFallen (map_body f it) = isFallen it"
  "createPhysicsAt (map_body f it) = createPhysicsAt it"
  "item_size (map_body f it) = item_size it"
  "restoreMotionAt (map_body f it) = restoreMotionAt it"
  "restoreMotionType (map_body f it) = restoreMotionType it"
  "becomeDynamicAt (map_body f it) = becomeDynamicAt it"
  "lockLateralUntil (map_body f it) = lockLateralUntil it"
  "localX (map_body f it) = localX it"
  "localZ (map_body f it) = localZ it"
  "isParented (map_body f it) = isParented it"
  "item_position (map_body f it) = item_position it"
  "has_mesh (map_body f it) = has_mesh it"
  "has_body (map_body f it) = has_body it"
  by (simp_all add: map_body_def set_body_fields split: option.splits)

lemma item_body_map_body: "item_body (map_body f it) = map_option f (item_body it)"
  by (simp add: map_body_def item_body_set_body has_body_def split: option.splits)

lemma set_position_fields:
  "isFallen (set_position p it) = isFallen it"
  "createPhysicsAt (set_position p it) = createPhysicsAt it"
  "item_size (set_position p it) = item_size it"
  "restoreMotionAt (set_position p it) = restoreMotionAt it"
  "restoreMotionType (set_position p it) = restoreMotionType it"
  "becomeDynamicAt (set_position p it) = becomeDynamicAt it"
  "lockLateralUntil (set_position p it) = lockLateralUntil it"
  "localX (set_position p it) = localX it"
  "localZ (set_position p it) = localZ it"
  "isParented (set_position p it) = isParented it"
  "item_body (set_position p it) = item_body it"
  "has_mesh (set_position p it) = has_mesh it"
  "has_body (set_position p it) = has_body it"
  "item_position (set_position p it) = (if has_mesh it then Some p else None)"
  by (simp_all add: set_position_def item_body_def item_position_def has_mesh_def has_body_def
      split: option.splits)

lemma restore_fields:
  "isFallen (restoreItemMotionType nowMs it) = isFallen it"
  "createPhysicsAt (restoreItemMotionType nowMs it) = createPhysicsAt it"
  "item_size (restoreItemMotionType nowMs it) = item_size it"
  "becomeDynamicAt (restoreItemMotionType nowMs it) = becomeDynamicAt it"
  "lockLateralUntil (restoreItemMotionType nowMs it) = lockLateralUntil it"
  "localX (restoreItemMotionType nowMs it) = localX it"
  "localZ (restoreItemMotionType nowMs it) = localZ it"
  "isParented (restoreItemMotionType nowMs it) = isParented it"
  "item_position (restoreItemMotionType nowMs it) = item_position it"
  "has_mesh (restoreItemMotionType nowMs it) = has_mesh it"
  "has_body (restoreItemMotionType nowMs it) = has_body it"
  by (simp_all add: restoreItemMotionType_def set_body_fields item_update_simps Let_def
      split: option.splits)

lemma teleport_fields:
  "isFallen (teleportItemBody p nowMs it) = isFallen it"
  "createPhysicsAt (teleportItemBody p nowMs it) = createPhysicsAt it"
  "item_size (teleportItemBody p nowMs it) = item_size it"
  "becomeDynamicAt (teleportItemBody p nowMs it) = becomeDynamicAt it"
  "lockLateralUntil (teleportItemBody p nowMs it) = lockLateralUntil it"
  "localX (teleportItemBody p nowMs it) = localX it"
  "localZ (teleportItemBody p nowMs it) = localZ it"
  "isParented (teleportItemBody p nowMs it) = isParented it"
  "item_position (teleportItemBody p nowMs it) = item_position it"
  "has_mesh (teleportItemBody p nowMs it) = has_mesh it"
  "has_body (teleportItemBody p nowMs it) = has_body it"
  by (simp_all add: teleportItemBody_def set_body_fields item_update_simps split: option.splits)

lemma teleport_body:
  "item_body it = Some b \<Longrightarrow>
   item_body (teleportItemBody p nowMs it) =
     Some ((zero_velocities b)\<lparr>targetTransform := Some p\<rparr>)"
  by (simp add: teleportItemBody_def PhysicsMotionType_KINEMATIC_def item_body_set_body
      item_update_simps has_body_def)


section \<open>Post-step pass: velocity ceilings and wall planes\<close>

lemma sqrt_scaled2:
  fixes k :: real
  assumes "0 \<le> k"
  shows "sqrt ((a * k) * (a * k) + (b * k) * (b * k)) = k * sqrt (a * a + b * b)"
proof -
  have "(a * k) * (a * k) + (b * k) * (b * k) = (k * k) * (a * a + b * b)"
    by (simp add: algebra_simps)
  then show ?thesis using assms by (simp add: real_sqrt_mult)
qed

lemma sqrt_scaled3:
  fixes k :: real
  assumes "0 \<le> k"
  shows "sqrt ((a * k) * (a * k) + (b * k) * (b * k) + (c * k) * (c * k)) = k * sqrt (a * a + b * b + c * c)"
proof -
  have "(a * k) * (a * k) + (b * k) * (b * k) + (c * k) * (c * k) = (k * k) * (a * a + b * b + c * c)"
    by (simp add: algebra_simps)
  then show ?thesis using assms by (simp add: real_sqrt_mult)
qed

lemma post_cap_linear_rel:
  "rel_speed tvx tvz (linearVelocity (post_cap_linear tvx tvz b)) \<le> MAX_REL_LINEAR_VELOCITY"
proof (cases "rel_speed tvx tvz (linearVelocity b) > MAX_REL_LINEAR_VELOCITY")
  case True
  let ?r = "rel_speed tvx tvz (linearVelocity b)"
  from True have rpos: "?r > 0" by (simp add: MAX_REL_LINEAR_VELOCITY_def)
  then have k: "0 \<le> MAX_REL_LINEAR_VELOCITY / ?r" by (simp add: MAX_REL_LINEAR_VELOCITY_def)
  have "rel_speed tvx tvz (linearVelocity (post_cap_linear tvx tvz b)) =
        (MAX_REL_LINEAR_VELOCITY / ?r) * ?r"
    using True sqrt_scaled2[OF k, of "vx (linearVelocity b) - tvx" "vz (linearVelocity b) - tvz"]
    by (simp add: post_cap_linear_def rel_speed_def Let_def)
  also have "\<dots> = MAX_REL_LINEAR_VELOCITY" using rpos by simp
  finally show ?thesis by simp
next
  case False
  then show ?thesis
    by (simp add: post_cap_linear_def rel_speed_def Let_def)
qed

lemma post_cap_linear_vertical:
  "\<bar>vy (linearVelocity (post_cap_linear tvx tvz b))\<bar> \<le> MAX_VERTICAL_VELOCITY"
  by (simp add: post_cap_linear_def Let_def MAX_VERTICAL_VELOCITY_def abs_mult)

lemma post_cap_linear_angular: "angularVelocity (post_cap_linear tvx tvz b) = angularVelocity b"
  by (simp add: post_cap_linear_def Let_def)

lemma cap_angular_linear: "linearVelocity (cap_angular b) = linearVelocity b"
  by (simp add: cap_angular_def Let_def)

lemma cap_angular_bound: "ang_speed (angularVelocity (cap_angular b)) \<le> MAX_ANGULAR_VELOCITY"
proof (cases "ang_speed (angularVelocity b) > MAX_ANGULAR_VELOCITY")
  case True
  let ?r = "ang_speed (angularVelocity b)"
  from True have rpos: "?r > 0" by (simp add: MAX_ANGULAR_VELOCITY_def)
  then have k: "0 \<le> MAX_ANGULAR_VELOCITY / ?r" by (simp add: MAX_ANGULAR_VELOCITY_def)
  have "ang_speed (angularVelocity (cap_angular b)) = (MAX_ANGULAR_VELOCITY / ?r) * ?r"
    using True sqrt_scaled3[OF k, of "vx (angularVelocity b)" "vy (angularVelocity b)" "vz (angularVelocity b)"]
    by (simp add: cap_angular_def ang_speed_def Let_def)
  also have "\<dots> = MAX_ANGULAR_VELOCITY" using rpos by simp
  finally show ?thesis by simp
next
  case False
  then show ?thesis by (simp add: cap_angular_def Let_def)
qed

lemma post_caps:
  "rel_speed tvx tvz (linearVelocity (cap_angular (post_cap_linear tvx tvz b))) \<le> MAX_REL_LINEAR_VELOCITY"
  "\<bar>vy (linearVelocity (cap_angular (post_cap_linear tvx tvz b)))\<bar> \<le> MAX_VERTICAL_VELOCITY"
  "ang_speed (angularVelocity (cap_angular (post_cap_linear tvx tvz b))) \<le> MAX_ANGULAR_VELOCITY"
  by (simp_all add: cap_angular_linear post_cap_linear_rel post_cap_linear_vertical cap_angular_bound)

lemma roundtrip:
  assumes "c * c + s * s = (1::real)"
  shows "world_to_local t c s (Vector3 (fst (local_to_world t c s l)) y (snd (local_to_world t c s l))) = l"
proof -
  have a: "(fst l * c - snd l * s) * c + (fst l * s + snd l * c) * s = fst l * (c * c + s * s)"
    by (simp add: algebra_simps)
  have b: "- (fst l * c - snd l * s) * s + (fst l * s + snd l * c) * c = snd l * (c * c + s * s)"
    by (simp add: algebra_simps)
  have "world_to_local t c s (Vector3 (fst (local_to_world t c s l)) y (snd (local_to_world t c s l)))
      = ((fst l * c - snd l * s) * c + (fst l * s + snd l * c) * s,
         - (fst l * c - snd l * s) * s + (fst l * s + snd l * c) * c)"
    by (simp add: world_to_local_def local_to_world_def Let_def algebra_simps)
  also have "\<dots> = l" unfolding a b assms by simp
  finally show ?thesis .
qed

lemma cos_sin_unit: "cos (x::real) * cos x + sin x * sin x = 1"
  using sin_cos_squared_add3[of x] by (simp add: power2_eq_square)


lemma post_teleport_fields:
  "isFallen (post_teleport t nowMs c s nl it) = isFallen it"
  "createPhysicsAt (post_teleport t nowMs c s nl it) = createPhysicsAt it"
  "item_size (post_teleport t nowMs c s nl it) = item_size it"
  "becomeDynamicAt (post_teleport t nowMs c s nl it) = becomeDynamicAt it"
  "lockLateralUntil (post_teleport t nowMs c s nl it) = lockLateralUntil it"
  "localX (post_teleport t nowMs c s nl it) = localX it"
  "localZ (post_teleport t nowMs c s nl it) = localZ it"
  "isParented (post_teleport t nowMs c s nl it) = isParented it"
  "has_mesh (post_teleport t nowMs c s nl it) = has_mesh it"
  "has_body (post_teleport t nowMs c s nl it) = has_body it"
  by (simp_all add: post_teleport_def Let_def teleport_fields set_position_fields map_body_fields
      split: option.splits)

lemma post_teleport_position:
  assumes "item_position it = Some p0"
  shows "item_position (post_teleport t nowMs c s nl it) =
         Some (Vector3 (fst (local_to_world t c s nl)) (vy p0) (snd (local_to_world t c s nl)))"
proof -
  from assms obtain m where m: "item_mesh it = Some m" "position m = p0"
    by (auto simp: item_position_def split: option.splits)
  then have "has_mesh it" by (simp add: item_position_mesh)
  with m show ?thesis
    by (simp add: post_teleport_def Let_def teleport_fields set_position_fields map_body_fields)
qed

lemma post_teleport_body:
  assumes "item_position it = Some p0" "item_body it = Some b"
  shows "item_body (post_teleport t nowMs c s nl it) =
         Some ((zero_velocities (zero_velocities b))
                \<lparr>targetTransform := Some (Vector3 (fst (local_to_world t c s nl)) (vy p0)
                                              (snd (local_to_world t c s nl)))\<rparr>)"
proof -
  let ?p = "Vector3 (fst (local_to_world t c s nl)) (vy p0) (snd (local_to_world t c s nl))"
  have b1: "item_body (set_position ?p (map_body zero_velocities it)) = Some (zero_velocities b)"
    using assms by (simp add: set_position_fields item_body_map_body)
  from assms obtain m where m: "item_mesh it = Some m" "position m = p0"
    by (auto simp: item_position_def split: option.splits)
  show ?thesis
    using m teleport_body[OF b1, of ?p nowMs]
    by (simp add: post_teleport_def Let_def)
qed


text \<open>The item as \<open>enforceItemBounds\<close> has it when the wall checks begin.\<close>

lemma enforceItem_skip:
  "\<not> has_mesh it \<or> isFallen it \<or> createPhysicsAt it > 0 \<Longrightarrow> enforceItem t nowMs it = it"
  by (auto simp: enforceItem_def has_mesh_def split: option.splits)

lemmas item_field_simps = set_body_fields map_body_fields set_position_fields restore_fields
  teleport_fields post_teleport_fields item_update_simps item_body_map_body

lemma enforceItem_keeps:
  "item_size (enforceItem t nowMs it) = item_size it"
  "createPhysicsAt (enforceItem t nowMs it) = createPhysicsAt it"
  "has_mesh (enforceItem t nowMs it) = has_mesh it"
  "has_body (enforceItem t nowMs it) = has_body it"
  "isParented (enforceItem t nowMs it) = isParented it"
  by (simp_all add: enforceItem_def Let_def item_field_simps split: option.splits)

lemma enforceItem_fallen_mono: "isFallen it \<Longrightarrow> isFallen (enforceItem t nowMs it)"
  by (simp add: enforceItem_def split: option.splits)

lemma enforceItem_isFallen:
  assumes "item_position it = Some p0" "\<not> isFallen it" "\<not> createPhysicsAt it > 0"
  shows "isFallen (enforceItem t nowMs it) =
         wayOutside t (half_x it 0.3) (half_z it 0.3)
           (world_to_local t (cos (- rotation t)) (sin (- rotation t)) p0) (vy p0)"
proof -
  from assms obtain m where m: "item_mesh it = Some m" "position m = p0"
    by (auto simp: item_position_def split: option.splits)
  show ?thesis
    using m assms(2,3) by (simp add: enforceItem_def Let_def item_field_simps)
qed

lemma enforceItem_position:
  assumes "item_position it = Some p0" "\<not> isFallen it" "\<not> createPhysicsAt it > 0"
  shows "item_position (enforceItem t nowMs it) =
         Some (if breaches_wall t (half_x it 0.3) (half_z it 0.3)
                    (world_to_local t (cos (- rotation t)) (sin (- rotation t)) p0) \<and>
                  has_body it
               then Vector3
                      (fst (local_to_world t (cos (- rotation t)) (sin (- rotation t))
                         (corrected_local t (half_x it 0.3) (half_z it 0.3)
                            (world_to_local t (cos (- rotation t)) (sin (- rotation t)) p0))))
                      (vy p0)
                      (snd (local_to_world t (cos (- rotation t)) (sin (- rotation t))
                         (corrected_local t (half_x it 0.3) (half_z it 0.3)
                            (world_to_local t (cos (- rotation t)) (sin (- rotation t)) p0))))
               else p0)"
proof -
  from assms obtain m where m: "item_mesh it = Some m" "position m = p0"
    by (auto simp: item_position_def split: option.splits)
  let ?it3 = "\<lambda>a b c. (map_body (\<lambda>b. cap_angular (post_cap_linear (truckWorldVelX t) (truckWorldVelZ t) b))
                  (restoreItemMotionType nowMs it))\<lparr>localX := a, localZ := b, localY := c\<rparr>"
  have p3: "item_position (?it3 a b c) = Some p0" for a b c
    using assms(1) by (simp add: item_field_simps)
  show ?thesis
  proof (cases "breaches_wall t (half_x it 0.3) (half_z it 0.3)
                    (world_to_local t (cos (- rotation t)) (sin (- rotation t)) p0) \<and> has_body it")
    case True
    then show ?thesis
      using m assms(2,3)
      by (simp add: enforceItem_def Let_def item_field_simps post_teleport_position[OF p3])
  next
    case False
    then show ?thesis
      using m assms(2,3)
      by (auto simp add: enforceItem_def Let_def item_field_simps assms(1))
  qed
qed

lemma enforceItem_body_capped:
  assumes "item_position it = Some p0" "\<not> isFallen it" "\<not> createPhysicsAt it > 0"
    and "\<not> breaches_wall t (half_x it 0.3) (half_z it 0.3)
            (world_to_local t (cos (- rotation t)) (sin (- rotation t)) p0)"
  shows "item_body (enforceItem t nowMs it) =
         map_option (\<lambda>b. cap_angular (post_cap_linear (truckWorldVelX t) (truckWorldVelZ t) b))
           (item_body (restoreItemMotionType nowMs it))"
proof -
  from assms obtain m where m: "item_mesh it = Some m" "position m = p0"
    by (auto simp: item_position_def split: option.splits)
  show ?thesis
    using m assms(2,3,4) by (simp add: enforceItem_def Let_def item_field_simps)
qed

lemma enforceItem_body_teleported:
  assumes "item_position it = Some p0" "\<not> isFallen it" "\<not> createPhysicsAt it > 0"
    and "breaches_wall t (half_x it 0.3) (half_z it 0.3)
            (world_to_local t (cos (- rotation t)) (sin (- rotation t)) p0)"
    and "has_body it"
  shows "\<exists>b. item_body (enforceItem t nowMs it) =
           Some ((zero_velocities b)\<lparr>targetTransform := item_position (enforceItem t nowMs it)\<rparr>)"
proof -
  from assms obtain m where m: "item_mesh it = Some m" "position m = p0"
    by (auto simp: item_position_def split: option.splits)
  let ?f = "\<lambda>b. cap_angular (post_cap_linear (truckWorldVelX t) (truckWorldVelZ t) b)"
  let ?c = "cos (- rotation t)" and ?s = "sin (- rotation t)"
  let ?l = "world_to_local t ?c ?s p0"
  let ?it3 = "(map_body ?f (restoreItemMotionType nowMs it))
                 \<lparr>localX := Some (fst ?l), localZ := Some (snd ?l), localY := Some (vy p0)\<rparr>"
  let ?nl = "corrected_local t (half_x it 0.3) (half_z it 0.3) ?l"
  have p3: "item_position ?it3 = Some p0"
    using assms(1) by (simp add: item_field_simps)
  have "has_body ?it3"
    using assms(5) by (simp add: item_field_simps)
  then obtain b3 where b3: "item_body ?it3 = Some b3"
    unfolding has_body_def by blast
  have e: "enforceItem t nowMs it =
      (if wayOutside t (half_x it 0.3) (half_z it 0.3) ?l (vy p0)
       then (post_teleport t nowMs ?c ?s ?nl ?it3)\<lparr>isFallen := True\<rparr>
       else post_teleport t nowMs ?c ?s ?nl ?it3)"
    using m assms(2,3,4,5)
    by (simp add: enforceItem_def Let_def post_teleport_fields map_body_fields restore_fields)
  have b: "item_body (enforceItem t nowMs it) = item_body (post_teleport t nowMs ?c ?s ?nl ?it3)"
    and p: "item_position (enforceItem t nowMs it) = item_position (post_teleport t nowMs ?c ?s ?nl ?it3)"
    unfolding e by (simp_all add: item_update_simps)
  show ?thesis
    unfolding b p post_teleport_body[OF p3 b3] post_teleport_position[OF p3]
    by (rule exI[of _ "zero_velocities b3"]) simp
qed


lemma item_local_position:
  "item_local t it = map_option (world_to_local t (cos (- rotation t)) (sin (- rotation t))) (item_position it)"
  by (simp add: item_local_def split: option.splits)




lemma roundtrip_post:
  "world_to_local t (cos r) (- sin r)
     (Vector3 (fst (local_to_world t (cos r) (- sin r) l)) y (snd (local_to_world t (cos r) (- sin r) l))) = l"
  by (rule roundtrip) (simp add: cos_sin_unit)

lemma enforceItem_local:
  assumes "item_position it = Some p0" "\<not> isFallen it" "\<not> createPhysicsAt it > 0"
  shows "item_local t (enforceItem t nowMs it) =
         Some (if breaches_wall t (half_x it 0.3) (half_z it 0.3)
                    (world_to_local t (cos (- rotation t)) (sin (- rotation t)) p0) \<and> has_body it
               then corrected_local t (half_x it 0.3) (half_z it 0.3)
                      (world_to_local t (cos (- rotation t)) (sin (- rotation t)) p0)
               else world_to_local t (cos (- rotation t)) (sin (- rotation t)) p0)"
  unfolding item_local_position enforceItem_position[OF assms]
  by (simp add: roundtrip_post)


lemma restore_body_exists:
  "has_body it \<Longrightarrow> \<exists>b. item_body (restoreItemMotionType nowMs it) = Some b"
  using restore_fields(11)[of nowMs it] by (auto simp: has_body_def)

text \<open>
  C2, as amended. After \<open>enforceItemBounds\<close>, every loaded item that has a physics body,
  is not fallen and is not awaiting physics-body creation has angular speed at most
  \<open>MAX_ANGULAR_VELOCITY = 3\<close> and absolute vertical velocity at most
  \<open>MAX_VERTICAL_VELOCITY = 4\<close>; if the pass did not teleport it, the horizontal
  magnitude of its velocity relative to the truck is at most
  \<open>MAX_REL_LINEAR_VELOCITY = 8\<close>; if the pass teleported it (it breached a wall plane),
  its linear and angular velocity are zero.
\<close>

theorem enforce_velocity_caps:
  assumes "has_body it" "\<not> createPhysicsAt it > 0"
    and "\<not> isFallen (enforceItem t nowMs it)"
  shows "\<exists>b l0. item_body (enforceItem t nowMs it) = Some b \<and> item_local t it = Some l0 \<and>
           ang_speed (angularVelocity b) \<le> MAX_ANGULAR_VELOCITY \<and>
           \<bar>vy (linearVelocity b)\<bar> \<le> MAX_VERTICAL_VELOCITY \<and>
           (if breaches_wall t (half_x it 0.3) (half_z it 0.3) l0
            then linearVelocity b = Zero3 \<and> angularVelocity b = Zero3
            else rel_speed (truckWorldVelX t) (truckWorldVelZ t) (linearVelocity b)
                   \<le> MAX_REL_LINEAR_VELOCITY)"
proof -
  from assms(1) obtain p0 where p0: "item_position it = Some p0"
    by (auto simp: has_body_def item_body_def item_position_def split: option.splits)
  have nf: "\<not> isFallen it" using assms(3) enforceItem_fallen_mono by blast
  let ?l0 = "world_to_local t (cos (- rotation t)) (sin (- rotation t)) p0"
  have l0: "item_local t it = Some ?l0" by (simp add: item_local_position p0)
  show ?thesis
  proof (cases "breaches_wall t (half_x it 0.3) (half_z it 0.3) ?l0")
    case True
    from enforceItem_body_teleported[OF p0 nf assms(2) True assms(1), of nowMs]
    obtain b where b: "item_body (enforceItem t nowMs it) =
           Some ((zero_velocities b)\<lparr>targetTransform := item_position (enforceItem t nowMs it)\<rparr>)"
      by blast
    show ?thesis
      using True l0 b
      by (simp add: zero_velocities_def Zero3_def ang_speed_def MAX_ANGULAR_VELOCITY_def
          MAX_VERTICAL_VELOCITY_def)
  next
    case False
    from restore_body_exists[OF assms(1), of nowMs] obtain b1
      where b1: "item_body (restoreItemMotionType nowMs it) = Some b1" by blast
    have "item_body (enforceItem t nowMs it) =
        Some (cap_angular (post_cap_linear (truckWorldVelX t) (truckWorldVelZ t) b1))"
      by (simp add: enforceItem_body_capped[OF p0 nf assms(2) False] b1)
    then show ?thesis
      using False l0 post_caps[of "truckWorldVelX t" "truckWorldVelZ t" b1] by simp
  qed
qed

lemma ex_item_sel:
  "item_position (ex_item name sz pos vel) = Some pos"
  "item_body (ex_item name sz pos vel) = Some (ex_body vel)"
  "has_mesh (ex_item name sz pos vel)" "has_body (ex_item name sz pos vel)"
  "isFallen (ex_item name sz pos vel) = False" "createPhysicsAt (ex_item name sz pos vel) = 0"
  "half_x (ex_item name sz pos vel) d = vx sz / 2" "half_z (ex_item name sz pos vel) d = vz sz / 2"
  "half_y (ex_item name sz pos vel) d = vy sz / 2"
  "restoreMotionAt (ex_item name sz pos vel) = 0"
  by (simp_all add: ex_item_def item_position_def item_body_def has_mesh_def has_body_def
      half_x_def half_y_def half_z_def)


lemma ex_cruising_sel:
  "cargoWidth ex_truck_cruising = 2.4" "cargoLength ex_truck_cruising = 4.8" "floorTopY ex_truck_cruising = 1.25"
  "position_x ex_truck_cruising = 0" "position_z ex_truck_cruising = 0" "rotation ex_truck_cruising = 0"
  "truckWorldVelX ex_truck_cruising = 0" "truckWorldVelZ ex_truck_cruising = - 11.176"
  by (simp_all add: ex_truck_cruising_def new_truck_def)



lemma ex_box_facts:
  "item_position ex_box_right = Some (Vector3 1 1.5 0)" "\<not> isFallen ex_box_right"
  "\<not> createPhysicsAt ex_box_right > 0" "has_mesh ex_box_right" "has_body ex_box_right"
  "half_x ex_box_right 0.3 = 0.3" "half_z ex_box_right 0.3 = 0.3"
  by (simp_all add: ex_box_right_def ex_item_sel)

lemma ex_box_local:
  "world_to_local ex_truck_cruising (cos (- rotation ex_truck_cruising))
     (sin (- rotation ex_truck_cruising)) (Vector3 1 1.5 0) = (1, 0)"
  by (simp add: world_to_local_def ex_cruising_sel)

lemma ex_box_breaches:
  "breaches_wall ex_truck_cruising (half_x ex_box_right 0.3) (half_z ex_box_right 0.3)
     (world_to_local ex_truck_cruising (cos (- rotation ex_truck_cruising))
        (sin (- rotation ex_truck_cruising)) (Vector3 1 1.5 0))"
  unfolding ex_box_local ex_box_facts by (simp add: breaches_wall_def ex_cruising_sel)

lemma ex_box_after:
  "\<not> isFallen (enforceItem ex_truck_cruising 0 ex_box_right)"
  "item_local ex_truck_cruising (enforceItem ex_truck_cruising 0 ex_box_right) = Some (0.8, 0)"
proof -
  show "\<not> isFallen (enforceItem ex_truck_cruising 0 ex_box_right)"
    unfolding enforceItem_isFallen[OF ex_box_facts(1,2,3)] ex_box_local ex_box_facts
    by (simp add: wayOutside_def ex_cruising_sel)
  show "item_local ex_truck_cruising (enforceItem ex_truck_cruising 0 ex_box_right) = Some (0.8, 0)"
    unfolding enforceItem_local[OF ex_box_facts(1,2,3)] ex_box_local ex_box_facts(6,7)
    using ex_box_facts(5)
    by (simp add: breaches_wall_def corrected_local_def safeMargin_def ex_cruising_sel)
qed


text \<open>The breaching box in a truck at 25 mph: teleported, velocities zero.\<close>

theorem enforce_velocity_caps_witness:
  "has_body ex_box_right \<and> \<not> createPhysicsAt ex_box_right > 0 \<and>
   \<not> isFallen (enforceItem ex_truck_cruising 0 ex_box_right) \<and>
   (\<exists>b. item_body (enforceItem ex_truck_cruising 0 ex_box_right) = Some b \<and>
        ang_speed (angularVelocity b) \<le> MAX_ANGULAR_VELOCITY \<and>
        \<bar>vy (linearVelocity b)\<bar> \<le> MAX_VERTICAL_VELOCITY \<and>
        linearVelocity b = Zero3)"
proof -
  have l: "item_local ex_truck_cruising ex_box_right = Some (1, 0)"
    unfolding item_local_position ex_box_facts(1) using ex_box_local by simp
  have b: "breaches_wall ex_truck_cruising (half_x ex_box_right 0.3) (half_z ex_box_right 0.3) (1, 0)"
    using ex_box_breaches unfolding ex_box_local .
  from enforce_velocity_caps[OF ex_box_facts(5,3) ex_box_after(1)] l b
  have "\<exists>b. item_body (enforceItem ex_truck_cruising 0 ex_box_right) = Some b \<and>
        ang_speed (angularVelocity b) \<le> MAX_ANGULAR_VELOCITY \<and>
        \<bar>vy (linearVelocity b)\<bar> \<le> MAX_VERTICAL_VELOCITY \<and>
        linearVelocity b = Zero3"
    by auto
  with ex_box_facts ex_box_after show ?thesis by simp
qed

text \<open>
  C2 as stated fails: the truck drives at 25 mph (11.176 m/s), the box moves with it and
  breaches the right wall; the teleport zeroes its velocity, so relative to the truck it
  moves at 11.176 m/s, above the ceiling of 8.
\<close>

theorem teleported_item_counterexample:
  "has_body (enforceItem ex_truck_cruising 0 ex_box_right) \<and>
   \<not> isFallen (enforceItem ex_truck_cruising 0 ex_box_right) \<and>
   map_option linearVelocity (item_body (enforceItem ex_truck_cruising 0 ex_box_right)) = Some Zero3 \<and>
   rel_speed (truckWorldVelX ex_truck_cruising) (truckWorldVelZ ex_truck_cruising) Zero3 = 11.176 \<and>
   \<not> rel_speed (truckWorldVelX ex_truck_cruising) (truckWorldVelZ ex_truck_cruising) Zero3
       \<le> MAX_REL_LINEAR_VELOCITY"
proof -
  from enforceItem_body_teleported[OF ex_box_facts(1,2,3) ex_box_breaches ex_box_facts(5), of 0]
  have v: "map_option linearVelocity (item_body (enforceItem ex_truck_cruising 0 ex_box_right)) = Some Zero3"
    by (auto simp: zero_velocities_def)
  have "rel_speed 0 z Zero3 = \<bar>z\<bar>" for z
    by (simp add: rel_speed_def Zero3_def)
  then have r: "rel_speed (truckWorldVelX ex_truck_cruising) (truckWorldVelZ ex_truck_cruising) Zero3 = 11.176"
    unfolding ex_cruising_sel by simp
  have hb: "has_body (enforceItem ex_truck_cruising 0 ex_box_right)"
    by (simp add: enforceItem_keeps ex_box_facts)
  show ?thesis
    unfolding r using v hb ex_box_after(1) by (simp add: MAX_REL_LINEAR_VELOCITY_def)
qed

section \<open>The fallen flag\<close>

lemma track_local_fields:
  "isFallen (track_local l it) = isFallen it" "has_body (track_local l it) = has_body it"
  by (simp_all add: track_local_def item_update_simps split: option.splits)

lemma pre_steps_isFallen:
  "isFallen (create_physics nowMs it) = isFallen it"
  "isFallen (become_dynamic nowMs it) = isFallen it"
  "isFallen (settle_with_truck t c s it) = isFallen it"
  "isFallen (damping_step nowMs moving it) = isFallen it"
  "isFallen (lock_lateral_step nowMs moving it) = isFallen it"
  "isFallen (hard_clamp t nowMs c s l it) = isFallen it"
  "isFallen (pre_cap tvx tvz it) = isFallen it"
  by (simp_all add: create_physics_def become_dynamic_def settle_with_truck_def damping_step_def
      lock_lateral_step_def hard_clamp_def pre_cap_def Let_def item_field_simps
      split: option.splits prod.splits)

lemma fallen_skips_corrections:
  assumes "isFallen it"
  shows "hard_clamp t nowMs c s l it = it" "pre_cap tvx tvz it = it" "pre_fallen_check t l it = it"
    "clamp_cap_check t nowMs c s tvx tvz l it = it"
  using assms
  by (simp_all add: hard_clamp_def pre_cap_def pre_fallen_check_def clamp_cap_check_def Let_def
      split: option.splits)

lemma pre_fallen_check_mono: "isFallen it \<Longrightarrow> isFallen (pre_fallen_check t l it)"
  by (simp add: fallen_skips_corrections)

lemma updateLoadedItem_fallen_mono:
  assumes "isFallen it"
  shows "isFallen (updateLoadedItem t nowMs dt moveX moveZ it)"
  using assms
  by (simp add: updateLoadedItem_def Let_def pre_steps_isFallen track_local_fields restore_fields
      fallen_skips_corrections split: option.splits)

lemma game_check_fallen:
  "isFallen it \<Longrightarrow> \<not> newly_fallen t it"
  "isFallen it \<Longrightarrow> game_check_item t it = it"
  "isFallen (game_check_item t it) = (isFallen it \<or> newly_fallen t it)"
  by (auto simp: newly_fallen_def game_check_item_def split: option.splits)

lemma physics_item_isFallen: "isFallen (physics_item f p) = isFallen (snd p)"
  by (simp add: physics_item_def split: option.splits)

lemma kept_map:
  assumes "\<And>x. isFallen x \<Longrightarrow> isFallen (f x)"
  shows "list_all2 (\<lambda>a b. isFallen a \<longrightarrow> isFallen b) xs (map f xs)"
  using assms by (induction xs) simp_all

lemma kept_physics:
  "list_all2 (\<lambda>a b. isFallen a \<longrightarrow> isFallen b) xs (physics_step f xs)"
  by (rule list_all2_all_nthI)
     (simp_all add: physics_step_def physics_item_isFallen nth_enumerate_eq)

lemma kept_trans:
  assumes "list_all2 (\<lambda>a b. isFallen a \<longrightarrow> isFallen b) xs ys"
    and "list_all2 (\<lambda>a b. isFallen a \<longrightarrow> isFallen b) ys zs"
  shows "list_all2 (\<lambda>a b. isFallen a \<longrightarrow> isFallen b) xs zs"
  using assms by (rule list_all2_trans[rotated]) simp

lemma kept_refl: "list_all2 (\<lambda>a b. isFallen a \<longrightarrow> isFallen b) xs xs"
  by (simp add: list_all2_same)

lemma phases_loadedItems:
  "loadedItems (beforeTurning deltaTime inputEnabled t) = loadedItems t"
  "loadedItems (turningUpdate ek ab dt t) = loadedItems t"
  "loadedItems (rotationVeto isect frameId r x z t) = loadedItems t"
  "loadedItems (driftDecay t) = loadedItems t"
  "loadedItems (translationUpdate isect frameId dt t) = loadedItems t"
  "loadedItems (applyTransform t) = loadedItems t"
  by (simp_all add: beforeTurning_def speedUpdate_def updateGear_def autoBrakeCountdown_def
      turningUpdate_def rotationVeto_def driftDecay_def translationUpdate_def applyTransform_def
      checkMeshCollision_vehicle Let_def)

lemma beforeVeto_loadedItems: "loadedItems (beforeVeto deltaTime inputEnabled t) = loadedItems t"
  by (simp add: beforeVeto_unfold phases_loadedItems)

lemma updateDriving_kept:
  "list_all2 (\<lambda>a b. isFallen a \<longrightarrow> isFallen b) (loadedItems t)
     (loadedItems (updateDriving isect frameId nowMs deltaTime inputEnabled t))"
  by (simp add: updateDriving_def Let_def updateLoadedItems_def phases_loadedItems
      beforeVeto_loadedItems kept_map updateLoadedItem_fallen_mono kept_refl)

lemma game_update_kept:
  "list_all2 (\<lambda>a b. isFallen a \<longrightarrow> isFallen b) (loadedItems t) (loadedItems (snd (game_update g t)))"
  by (simp add: game_update_def Let_def kept_map game_check_fallen kept_refl)

lemma enforceItemBounds_kept:
  "list_all2 (\<lambda>a b. isFallen a \<longrightarrow> isFallen b) (loadedItems t) (loadedItems (enforceItemBounds nowMs t))"
  by (simp add: enforceItemBounds_def kept_map enforceItem_fallen_mono)

lemma run_frame_kept:
  "list_all2 (\<lambda>a b. isFallen a \<longrightarrow> isFallen b) (loadedItems (snd gt))
     (loadedItems (snd (run_frame isect fi gt)))"
proof -
  let ?g = "fst gt"
  let ?t1 = "if isRunning ?g
             then updateDriving isect (fi_frameId fi) (fi_nowMs fi) (min (fi_deltaTime fi) 0.1)
                    (fi_inputEnabled fi) (snd gt)
             else snd gt"
  let ?r = "if \<not> isPaused ?g then game_update ?g ?t1 else (?g, ?t1)"
  let ?t2 = "(snd ?r)\<lparr>loadedItems := physics_step (fi_physics fi) (loadedItems (snd ?r))\<rparr>"
  have 1: "list_all2 (\<lambda>a b. isFallen a \<longrightarrow> isFallen b) (loadedItems (snd gt)) (loadedItems ?t1)"
    by (simp add: updateDriving_kept kept_refl)
  have 2: "list_all2 (\<lambda>a b. isFallen a \<longrightarrow> isFallen b) (loadedItems ?t1) (loadedItems (snd ?r))"
    by (simp add: game_update_kept kept_refl)
  have 3: "list_all2 (\<lambda>a b. isFallen a \<longrightarrow> isFallen b) (loadedItems (snd ?r)) (loadedItems ?t2)"
    by (simp add: kept_physics)
  have 4: "list_all2 (\<lambda>a b. isFallen a \<longrightarrow> isFallen b) (loadedItems ?t2)
             (loadedItems (enforceItemBounds (fi_nowMs fi) ?t2))"
    by (rule enforceItemBounds_kept)
  have e: "snd (run_frame isect fi gt) = enforceItemBounds (fi_nowMs fi) ?t2"
    by (simp add: run_frame_def Let_def)
  show ?thesis
    unfolding e by (rule kept_trans[OF kept_trans[OF kept_trans[OF 1 2] 3] 4])
qed

lemma run_frames_kept:
  "list_all2 (\<lambda>a b. isFallen a \<longrightarrow> isFallen b) (loadedItems (snd gt))
     (loadedItems (snd (run_frames isect fis gt)))"
proof (induction fis arbitrary: gt)
  case Nil
  show ?case by (simp add: kept_refl)
next
  case (Cons fi fis)
  from kept_trans[OF run_frame_kept[of gt isect fi] Cons.IH[of "run_frame isect fi gt"]]
  show ?case by simp
qed

text \<open>
  C3. \<open>isFallen\<close> is terminal. A fallen item stays fallen through an iteration of the
  pre-step pass (\<open>updateLoadedItems\<close>), of the post-step pass (\<open>enforceItemBounds\<close>) and
  of the fallen check of \<open>Game.update\<close>. The post-step pass leaves a fallen item
  untouched; in the pre-step pass the hard clamp with its teleport, the velocity caps and
  the fallen test leave it untouched; \<open>Game.update\<close> never counts it again. Over any
  sequence of frames of a round, with any physics steps in between, every item that is
  fallen at some frame is fallen at every later frame.
\<close>

theorem isFallen_terminal:
  "(isFallen it \<longrightarrow>
      isFallen (updateLoadedItem t nowMs dt moveX moveZ it) \<and>
      isFallen (enforceItem t nowMs it) \<and>
      isFallen (game_check_item t it) \<and>
      enforceItem t nowMs it = it \<and>
      clamp_cap_check t nowMs c s tvx tvz l it = it \<and>
      hard_clamp t nowMs c s l it = it \<and>
      pre_cap tvx tvz it = it \<and>
      \<not> newly_fallen t it) \<and>
   list_all2 (\<lambda>a b. isFallen a \<longrightarrow> isFallen b) (loadedItems (snd gt))
     (loadedItems (snd (run_frames isect fis gt)))"
  by (simp add: updateLoadedItem_fallen_mono enforceItem_fallen_mono game_check_fallen
      enforceItem_skip fallen_skips_corrections run_frames_kept)

section \<open>The fall-out callback\<close>

lemma count_points_pos: "count_points P xs > 0 \<longleftrightarrow> list_ex P xs"
  by (auto simp: count_points_def list_ex_iff filter_empty_conv)

lemma onItemFellOut_fields:
  "callbackCalls (onItemFellOut g) = Suc (callbackCalls g)"
  "lossEffects (onItemFellOut g) = (if fallOutTriggered g then lossEffects g else Suc (lossEffects g))"
  "fallOutTriggered (onItemFellOut g)"
  "isRunning (onItemFellOut g) = isRunning g" "isPaused (onItemFellOut g) = isPaused g"
  by (simp_all add: onItemFellOut_def Let_def)

lemma game_update_calls:
  "callbackCalls (fst (game_update g t)) =
     callbackCalls g +
       (if isRunning g \<and> \<not> isPaused g \<and> list_ex (newly_fallen t) (loadedItems t) then 1 else 0)"
  by (simp add: game_update_def Let_def count_points_pos onItemFellOut_fields)

lemma newly_fallen_truck:
  "newly_fallen (t\<lparr>loadedItems := xs\<rparr>) it = newly_fallen t it"
  by (simp add: newly_fallen_def game_fell_def world_to_local_def Let_def split: option.splits)

lemma checked_not_newly: "\<not> newly_fallen t (game_check_item t it)"
  by (simp add: game_check_item_def) (simp add: newly_fallen_def split: option.splits)

lemma game_update_edge:
  assumes "isRunning g" "\<not> isPaused g"
  shows "\<not> list_ex (newly_fallen (snd (game_update g t))) (loadedItems (snd (game_update g t)))"
  using assms
  by (simp add: game_update_def Let_def newly_fallen_truck list_ex_iff checked_not_newly)

text \<open>The latch: the body of the callback has run once if the flag is set, never otherwise.\<close>

lemma latch_onItemFellOut:
  assumes "lossEffects g = (if fallOutTriggered g then 1 else 0)"
  shows "lossEffects (onItemFellOut g) = (if fallOutTriggered (onItemFellOut g) then 1 else 0)"
  using assms by (simp add: onItemFellOut_fields)

lemma latch_game_update:
  assumes "lossEffects g = (if fallOutTriggered g then 1 else 0)"
  shows "lossEffects (fst (game_update g t)) = (if fallOutTriggered (fst (game_update g t)) then 1 else 0)"
  using assms latch_onItemFellOut[OF assms] by (simp add: game_update_def Let_def)

lemma run_frame_game:
  "fst (run_frame isect fi gt) =
     (if \<not> isPaused (fst gt)
      then fst (game_update (fst gt)
                 (if isRunning (fst gt)
                  then updateDriving isect (fi_frameId fi) (fi_nowMs fi) (min (fi_deltaTime fi) 0.1)
                         (fi_inputEnabled fi) (snd gt)
                  else snd gt))
      else fst gt)"
  by (simp add: run_frame_def Let_def)

lemma latch_run_frame:
  assumes "lossEffects (fst gt) = (if fallOutTriggered (fst gt) then 1 else 0)"
  shows "lossEffects (fst (run_frame isect fi gt)) =
         (if fallOutTriggered (fst (run_frame isect fi gt)) then 1 else 0)"
  unfolding run_frame_game using assms latch_game_update[OF assms] by simp

lemma latch_run_frames:
  assumes "lossEffects (fst gt) = (if fallOutTriggered (fst gt) then 1 else 0)"
  shows "lossEffects (fst (run_frames isect fis gt)) =
         (if fallOutTriggered (fst (run_frames isect fis gt)) then 1 else 0)"
  using assms
proof (induction fis arbitrary: gt)
  case Nil
  then show ?case by simp
next
  case (Cons fi fis)
  from Cons.IH[OF latch_run_frame[OF Cons.prems]] show ?case by simp
qed

lemma latch_start: "lossEffects (start_round g) = (if fallOutTriggered (start_round g) then 1 else 0)"
  by (simp add: start_round_def)

text \<open>
  C8, as amended. \<open>Game.update\<close> invokes \<open>onItemFellOut\<close> once in an update in which its
  own fallen check newly marks at least one placed item, whatever the number of items
  marked, and not at all otherwise. It is edge-triggered: an item that is already fallen
  (marked by this check or by a pass of the truck) is never counted, and right after an
  update no item is left to be counted. The body of the callback (error sound, loss
  screen) runs at most once in a round, whatever the frames are.
\<close>

theorem fall_out_callback:
  "callbackCalls (fst (game_update g t)) =
     callbackCalls g +
       (if isRunning g \<and> \<not> isPaused g \<and> list_ex (newly_fallen t) (loadedItems t) then 1 else 0) \<and>
   (isFallen it \<longrightarrow> \<not> newly_fallen t it) \<and>
   (isRunning g \<and> \<not> isPaused g \<longrightarrow>
      \<not> list_ex (newly_fallen (snd (game_update g t))) (loadedItems (snd (game_update g t)))) \<and>
   lossEffects (fst (run_frames isect fis (start_round g, t))) \<le> 1"
proof -
  have "lossEffects (fst (run_frames isect fis (start_round g, t))) \<le> 1"
    using latch_run_frames[of "(start_round g, t)" isect fis] latch_start[of g] by simp
  then show ?thesis
    using game_update_edge[of g t] by (simp add: game_update_calls game_check_fallen)
qed

text \<open>When every item is fallen already, no frame invokes the callback.\<close>

lemma all_fallen_kept:
  assumes "list_all isFallen xs" "list_all2 (\<lambda>a b. isFallen a \<longrightarrow> isFallen b) xs ys"
  shows "list_all isFallen ys"
  using assms(2,1) by (induction rule: list_all2_induct) simp_all

lemma all_fallen_no_call:
  assumes "list_all isFallen (loadedItems t)"
  shows "callbackCalls (fst (game_update g t)) = callbackCalls g"
proof -
  from assms have "\<not> list_ex (newly_fallen t) (loadedItems t)"
    by (auto simp: list_ex_iff list_all_iff game_check_fallen)
  then show ?thesis by (simp add: game_update_calls)
qed

lemma all_fallen_run_frame:
  assumes "list_all isFallen (loadedItems (snd gt))"
  shows "callbackCalls (fst (run_frame isect fi gt)) = callbackCalls (fst gt)"
    "list_all isFallen (loadedItems (snd (run_frame isect fi gt)))"
proof -
  have "list_all isFallen (loadedItems (updateDriving isect (fi_frameId fi) (fi_nowMs fi)
           (min (fi_deltaTime fi) 0.1) (fi_inputEnabled fi) (snd gt)))"
    by (rule all_fallen_kept[OF assms updateDriving_kept])
  then show "callbackCalls (fst (run_frame isect fi gt)) = callbackCalls (fst gt)"
    unfolding run_frame_game using assms by (simp add: all_fallen_no_call)
  show "list_all isFallen (loadedItems (snd (run_frame isect fi gt)))"
    by (rule all_fallen_kept[OF assms run_frame_kept])
qed

lemma all_fallen_run_frames:
  assumes "list_all isFallen (loadedItems (snd gt))"
  shows "callbackCalls (fst (run_frames isect fis gt)) = callbackCalls (fst gt)"
  using assms
proof (induction fis arbitrary: gt)
  case Nil
  then show ?case by simp
next
  case (Cons fi fis)
  from Cons.IH[OF all_fallen_run_frame(2)[OF Cons.prems]] all_fallen_run_frame(1)[OF Cons.prems]
  show ?case by simp
qed

lemma ex_game_sel:
  "isRunning ex_game" "\<not> isPaused ex_game" "callbackCalls ex_game = 0" "lossEffects ex_game = 0"
  "\<not> fallOutTriggered ex_game"
  by (simp_all add: ex_game_def start_round_def)

lemma ex_thrown_sel:
  "loadedItems ex_truck_thrown = [ex_box_thrown]"
  "cargoWidth ex_truck_thrown = 2.4" "cargoLength ex_truck_thrown = 4.8" "floorTopY ex_truck_thrown = 1.25"
  "position_x ex_truck_thrown = 0" "position_z ex_truck_thrown = 0" "rotation ex_truck_thrown = 0"
  by (simp_all add: ex_truck_thrown_def new_truck_def)

lemma ex_thrown_fallen: "isFallen (enforceItem ex_truck_thrown 0 ex_box_thrown)"
proof -
  have p: "item_position ex_box_thrown = Some (Vector3 10 1.5 0)"
    and f: "\<not> isFallen ex_box_thrown" and c: "\<not> createPhysicsAt ex_box_thrown > 0"
    and h: "half_x ex_box_thrown 0.3 = 0.3" "half_z ex_box_thrown 0.3 = 0.3"
    by (simp_all add: ex_box_thrown_def ex_item_sel)
  have l: "world_to_local ex_truck_thrown (cos (- rotation ex_truck_thrown))
             (sin (- rotation ex_truck_thrown)) (Vector3 10 1.5 0) = (10, 0)"
    by (simp add: world_to_local_def ex_thrown_sel)
  show ?thesis
    unfolding enforceItem_isFallen[OF p f c] l h by (simp add: wayOutside_def ex_thrown_sel)
qed

text \<open>
  C8 as stated fails: a physics step has thrown a box 10 m to the side. The post-step
  pass marks it fallen; \<open>Game.update\<close> of the following frames skips a fallen item, and
  the callback is never invoked for this item's transition.
\<close>

theorem silent_fall_counterexample:
  "\<not> isFallen ex_box_thrown \<and> loadedItems ex_truck_thrown = [ex_box_thrown] \<and>
   callbackCalls ex_game = 0 \<and>
   list_all isFallen (loadedItems (enforceItemBounds 0 ex_truck_thrown)) \<and>
   callbackCalls (fst (run_frames isect_all [ex_frame, ex_frame]
                         (ex_game, enforceItemBounds 0 ex_truck_thrown))) = 0"
proof -
  have a: "list_all isFallen (loadedItems (enforceItemBounds 0 ex_truck_thrown))"
    by (simp add: enforceItemBounds_def ex_thrown_sel ex_thrown_fallen)
  then have "list_all isFallen (loadedItems (snd (ex_game, enforceItemBounds 0 ex_truck_thrown)))"
    by simp
  from all_fallen_run_frames[OF this, of isect_all "[ex_frame, ex_frame]"]
  have "callbackCalls (fst (run_frames isect_all [ex_frame, ex_frame]
                         (ex_game, enforceItemBounds 0 ex_truck_thrown))) = 0"
    by (simp add: ex_game_sel)
  with a show ?thesis
    by (simp add: ex_thrown_sel ex_game_sel) (simp add: ex_box_thrown_def ex_item_sel)
qed

lemma ex_low_sel:
  "loadedItems ex_truck_low = [ex_box_low, ex_chair_low]"
  "cargoWidth ex_truck_low = 2.4" "cargoLength ex_truck_low = 4.8" "floorTopY ex_truck_low = 1.25"
  "position_x ex_truck_low = 0" "position_z ex_truck_low = 0" "rotation ex_truck_low = 0"
  by (simp_all add: ex_truck_low_def new_truck_def)

lemma ex_low_newly: "newly_fallen ex_truck_low ex_box_low" "newly_fallen ex_truck_low ex_chair_low"
  by (simp_all add: newly_fallen_def game_fell_def ex_box_low_def ex_chair_low_def ex_item_def
      half_y_def ex_low_sel Let_def)

text \<open>A box and a chair drop below the floor in the same frame: one invocation.\<close>

theorem fall_out_callback_witness:
  "isRunning ex_game \<and> \<not> isPaused ex_game \<and>
   list_ex (newly_fallen ex_truck_low) (loadedItems ex_truck_low) \<and>
   callbackCalls (fst (game_update ex_game ex_truck_low)) = 1 \<and>
   list_all isFallen (loadedItems (snd (game_update ex_game ex_truck_low))) \<and>
   \<not> list_ex (newly_fallen (snd (game_update ex_game ex_truck_low)))
        (loadedItems (snd (game_update ex_game ex_truck_low))) \<and>
   lossEffects (fst (run_frames isect_all [ex_frame, ex_frame] (start_round ex_game, ex_truck_low))) \<le> 1"
proof -
  have n: "list_ex (newly_fallen ex_truck_low) (loadedItems ex_truck_low)"
    by (simp add: ex_low_sel ex_low_newly)
  have f: "list_all isFallen (loadedItems (snd (game_update ex_game ex_truck_low)))"
    by (simp add: game_update_def ex_game_sel Let_def ex_low_sel game_check_item_def ex_low_newly)
  from fall_out_callback[of ex_game ex_truck_low ex_box_low isect_all "[ex_frame, ex_frame]"] n f
  show ?thesis by (simp add: ex_game_sel)
qed

text \<open>A fallen box through two frames.\<close>

theorem isFallen_terminal_witness:
  "isFallen ex_fallen_box \<and>
   isFallen (updateLoadedItem ex_truck_fallen 16 0.016 0 0 ex_fallen_box) \<and>
   enforceItem ex_truck_fallen 16 ex_fallen_box = ex_fallen_box \<and>
   \<not> newly_fallen ex_truck_fallen ex_fallen_box \<and>
   list_all isFallen (loadedItems (snd (run_frames isect_all [ex_frame, ex_frame] (ex_game, ex_truck_fallen))))"
proof -
  have f: "isFallen ex_fallen_box" by (simp add: ex_fallen_box_def)
  have a: "list_all isFallen (loadedItems (snd (ex_game, ex_truck_fallen)))"
    by (simp add: ex_truck_fallen_def f)
  note t = isFallen_terminal[of ex_fallen_box ex_truck_fallen 16 "0.016" 0 0 1 0 0 0 "(0, 0)"
      "(ex_game, ex_truck_fallen)" isect_all "[ex_frame, ex_frame]"]
  from t have "list_all2 (\<lambda>a b. isFallen a \<longrightarrow> isFallen b) (loadedItems (snd (ex_game, ex_truck_fallen)))
     (loadedItems (snd (run_frames isect_all [ex_frame, ex_frame] (ex_game, ex_truck_fallen))))"
    by blast
  from all_fallen_kept[OF a this] t f show ?thesis by blast
qed

end
